theory Spec2Isabelle
  imports Complex_Main
begin

section \<open>Python floats\<close>

text \<open>
  The program computes confidence, strain and pain with Python floats (IEEE binary64,
  round to nearest, ties to even). A finite double is modelled exactly as a pair
  \<open>Dbl m e\<close> standing for \<open>m * 2 ^ e\<close>, kept in the normal form where \<open>m\<close> is odd
  (or \<open>Dbl 0 0\<close> for zero), so that equality of models is equality of floats.
  Every operation computes the exact result on integers and rounds it once to 53
  significant bits (or to a multiple of \<open>2 ^ -1074\<close> in the subnormal range).
  Infinities and NaN are not modelled: no value of this program comes near
  \<open>2 ^ 1024\<close>.
\<close>

datatype dbl = Dbl int int

function bitlen :: "int \<Rightarrow> int" where
  "bitlen n = (if n \<le> 0 then 0 else 1 + bitlen (n div 2))"
  by pat_completeness auto
termination
  by (relation "measure nat") auto

declare bitlen.simps [simp del]

function norm_dbl :: "int \<Rightarrow> int \<Rightarrow> dbl" where
  "norm_dbl m e = (if m = 0 then Dbl 0 0
                   else if even m then norm_dbl (m div 2) (e + 1)
                   else Dbl m e)"
  by pat_completeness auto
termination
  by (relation "measure (\<lambda>(m, e). nat \<bar>m\<bar>)") auto

declare norm_dbl.simps [simp del]

text \<open>\<open>round53 m e\<close> is the double nearest to the exact number \<open>m * 2 ^ e\<close>.\<close>

definition round53 :: "int \<Rightarrow> int \<Rightarrow> dbl" where
  "round53 m e =
     (let a = \<bar>m\<bar>;
          sh = max (bitlen a - 53) (- 1074 - e)
      in if sh \<le> 0 then norm_dbl m e
         else let q = a div 2 ^ nat sh;
                  r = a mod 2 ^ nat sh;
                  h = 2 ^ nat (sh - 1);
                  q' = (if h < r \<or> (r = h \<and> odd q) then q + 1 else q)
              in norm_dbl (sgn m * q') (e + sh))"

text \<open>\<open>float(i)\<close> for a Python int.\<close>

definition d_int :: "int \<Rightarrow> dbl" where
  "d_int i = round53 i 0"

text \<open>
  \<open>ratio p q\<close> is the double nearest to the fraction \<open>p / q\<close> (\<open>q \<noteq> 0\<close>): Python's true
  division of two ints, and the value of a decimal literal (\<open>0.85\<close> is \<open>ratio 85 100\<close>).
  The quotient is computed to at least 55 bits with a sticky bit for the remainder.
\<close>

definition ratio :: "int \<Rightarrow> int \<Rightarrow> dbl" where
  "ratio p q =
     (let a = \<bar>p\<bar>; b = \<bar>q\<bar>;
          k = nat (bitlen b + 55 - bitlen a);
          n = a * 2 ^ k;
          mant = 2 * (n div b) + (if n mod b = 0 then 0 else 1)
      in round53 (sgn p * sgn q * mant) (- int k - 1))"

fun dadd :: "dbl \<Rightarrow> dbl \<Rightarrow> dbl" where
  "dadd (Dbl m1 e1) (Dbl m2 e2) =
     (let e = min e1 e2 in round53 (m1 * 2 ^ nat (e1 - e) + m2 * 2 ^ nat (e2 - e)) e)"

fun dsub :: "dbl \<Rightarrow> dbl \<Rightarrow> dbl" where
  "dsub (Dbl m1 e1) (Dbl m2 e2) =
     (let e = min e1 e2 in round53 (m1 * 2 ^ nat (e1 - e) - m2 * 2 ^ nat (e2 - e)) e)"

fun dmul :: "dbl \<Rightarrow> dbl \<Rightarrow> dbl" where
  "dmul (Dbl m1 e1) (Dbl m2 e2) = round53 (m1 * m2) (e1 + e2)"

text \<open>Float division; the callers below never divide by zero.\<close>

fun ddiv :: "dbl \<Rightarrow> dbl \<Rightarrow> dbl" where
  "ddiv (Dbl m1 e1) (Dbl m2 e2) =
     (if e2 \<le> e1 then ratio (m1 * 2 ^ nat (e1 - e2)) m2
      else ratio m1 (m2 * 2 ^ nat (e2 - e1)))"

fun dless :: "dbl \<Rightarrow> dbl \<Rightarrow> bool" where
  "dless (Dbl m1 e1) (Dbl m2 e2) =
     (let e = min e1 e2 in m1 * 2 ^ nat (e1 - e) < m2 * 2 ^ nat (e2 - e))"

text \<open>
  Python's \<open>max(a, b)\<close> and \<open>min(a, b)\<close> keep the first argument unless the second is
  strictly greater (smaller).
\<close>

definition py_max :: "dbl \<Rightarrow> dbl \<Rightarrow> dbl" where
  "py_max a b = (if dless a b then b else a)"

definition py_min :: "dbl \<Rightarrow> dbl \<Rightarrow> dbl" where
  "py_min a b = (if dless b a then b else a)"

text \<open>\<open>int(x)\<close> truncates towards zero.\<close>

fun py_int :: "dbl \<Rightarrow> int" where
  "py_int (Dbl m e) =
     (if 0 \<le> e then m * 2 ^ nat e else sgn m * (\<bar>m\<bar> div 2 ^ nat (- e)))"

text \<open>The real number a double stands for.\<close>

fun dval :: "dbl \<Rightarrow> real" where
  "dval (Dbl m e) = of_int m * 2 powi e"

text \<open>
  \<open>int(np.mean(h))\<close> for a non-empty deque of ints: numpy adds the entries in float64
  (exact for integers of this size), divides once by the count and \<open>int\<close> truncates.
\<close>

definition int_mean :: "int list \<Rightarrow> int" where
  "int_mean h = py_int (ratio (sum_list h) (int (length h)))"

section \<open>Containers\<close>

text \<open>
  A dict literal: a later entry for the same key replaces the earlier value
  (\<open>map_of\<close> returns the first match, hence the reversal).
\<close>

definition dict_literal :: "('k \<times> 'v) list \<Rightarrow> ('k \<rightharpoonup> 'v)" where
  "dict_literal kvs = map_of (rev kvs)"

text \<open>\<open>deque(maxlen=n).append(x)\<close>: the oldest entries fall out at the left.\<close>

definition deque_append :: "nat \<Rightarrow> 'a list \<Rightarrow> 'a \<Rightarrow> 'a list" where
  "deque_append maxlen xs x = drop (Suc (length xs) - maxlen) (xs @ [x])"

text \<open>
  \<open>max(items, key=f)\<close>: the first item, in iteration order, whose key no later item
  exceeds; \<open>None\<close> stands for the ValueError on an empty iterable.
\<close>

fun py_max_from :: "('k \<Rightarrow> 'k \<Rightarrow> bool) \<Rightarrow> ('a \<Rightarrow> 'k) \<Rightarrow> 'a \<Rightarrow> 'a list \<Rightarrow> 'a" where
  "py_max_from lt key best [] = best"
| "py_max_from lt key best (x # xs) =
     py_max_from lt key (if lt (key best) (key x) then x else best) xs"

definition py_max_key :: "('k \<Rightarrow> 'k \<Rightarrow> bool) \<Rightarrow> ('a \<Rightarrow> 'k) \<Rightarrow> 'a list \<Rightarrow> 'a option" where
  "py_max_key lt key xs =
     (case xs of [] \<Rightarrow> None | x # rest \<Rightarrow> Some (py_max_from lt key x rest))"

definition truthy :: "string option \<Rightarrow> bool" where
  "truthy m = (case m of None \<Rightarrow> False | Some s \<Rightarrow> s \<noteq> [])"

section \<open>Reference tables\<close>

text \<open>
  \<open>MATERIAL_DATABASE\<close> and \<open>OBJECT_MATERIAL_MAP\<close>, entry by entry in the order of the
  source (colour and description, used only for drawing, are left out).
\<close>

record material_info =
  grip_strength :: int
  haptic_intensity :: string
  sound_freq :: int
  pain_factor :: dbl

definition MATERIAL_DATABASE :: "string \<rightharpoonup> material_info" where
  "MATERIAL_DATABASE = dict_literal
     [(''fabric'', \<lparr>grip_strength = 30, haptic_intensity = ''LOW'',
                    sound_freq = 300, pain_factor = ratio 2 10\<rparr>),
      (''metal'', \<lparr>grip_strength = 70, haptic_intensity = ''HIGH'',
                   sound_freq = 600, pain_factor = ratio 7 10\<rparr>),
      (''glass'', \<lparr>grip_strength = 85, haptic_intensity = ''VERY HIGH'',
                   sound_freq = 800, pain_factor = ratio 9 10\<rparr>),
      (''wood'', \<lparr>grip_strength = 50, haptic_intensity = ''MEDIUM'',
                  sound_freq = 400, pain_factor = ratio 4 10\<rparr>),
      (''plastic'', \<lparr>grip_strength = 60, haptic_intensity = ''MEDIUM'',
                     sound_freq = 450, pain_factor = ratio 5 10\<rparr>),
      (''paper'', \<lparr>grip_strength = 25, haptic_intensity = ''VERY LOW'',
                   sound_freq = 250, pain_factor = ratio 1 10\<rparr>),
      (''ceramic'', \<lparr>grip_strength = 75, haptic_intensity = ''HIGH'',
                     sound_freq = 700, pain_factor = ratio 8 10\<rparr>),
      (''stone'', \<lparr>grip_strength = 80, haptic_intensity = ''VERY HIGH'',
                   sound_freq = 750, pain_factor = ratio 85 100\<rparr>)]"

definition OBJECT_MATERIAL_MAP :: "string \<rightharpoonup> string" where
  "OBJECT_MATERIAL_MAP = dict_literal
     [(''backpack'', ''fabric''), (''handbag'', ''fabric''), (''tie'', ''fabric''),
      (''umbrella'', ''fabric''), (''suitcase'', ''fabric''), (''teddy bear'', ''fabric''),
      (''knife'', ''metal''), (''fork'', ''metal''), (''spoon'', ''metal''),
      (''scissors'', ''metal''), (''refrigerator'', ''metal''), (''oven'', ''metal''),
      (''sink'', ''metal''), (''toaster'', ''metal''),
      (''wine glass'', ''glass''), (''cup'', ''glass''), (''bottle'', ''glass''),
      (''vase'', ''glass''), (''mirror'', ''glass''),
      (''chair'', ''wood''), (''dining table'', ''wood''), (''bench'', ''wood''),
      (''cell phone'', ''plastic''), (''remote'', ''plastic''), (''keyboard'', ''plastic''),
      (''mouse'', ''plastic''), (''laptop'', ''plastic''), (''toothbrush'', ''plastic''),
      (''bowl'', ''plastic''),
      (''book'', ''paper''), (''newspaper'', ''paper''),
      (''potted plant'', ''ceramic''), (''vase'', ''ceramic'')]"

section \<open>PainFeedbackSystem\<close>

text \<open>
  The fields \<open>last_alert_time\<close> and \<open>alert_cooldown\<close> are set in \<open>__init__\<close> and never
  read again; they are left out. \<open>pain_history\<close> is the deque of capacity 20, oldest
  entry first.
\<close>

record PainFeedbackSystem =
  pain_level :: int
  pain_history :: "int list"
  strain_accumulation :: dbl
  relief_mode :: bool

definition pain_init :: PainFeedbackSystem where
  "pain_init = \<lparr>pain_level = 0, pain_history = [], strain_accumulation = d_int 0,
                 relief_mode = False\<rparr>"

definition material_pain_factor :: "string option \<Rightarrow> dbl" where
  "material_pain_factor material =
     (case material of
        None \<Rightarrow> ratio 5 10
      | Some m \<Rightarrow>
          (case (if m \<noteq> [] then MATERIAL_DATABASE m else None) of
             Some info \<Rightarrow> pain_factor info
           | None \<Rightarrow> ratio 5 10))"

definition calculate_pain_from_grip ::
    "int \<Rightarrow> string option \<Rightarrow> PainFeedbackSystem \<Rightarrow> int \<times> PainFeedbackSystem" where
  "calculate_pain_from_grip grip material ps =
     (let base_pain = py_max (d_int 0) (dmul (d_int (grip - 40)) (ratio 15 10));
          material_pain = dmul base_pain (material_pain_factor material);
          strain = py_min (dadd (strain_accumulation ps) (dmul (ratio grip 100) (ratio 5 10)))
                          (d_int 50);
          total_pain = dadd material_pain strain;
          total_pain' = (if relief_mode ps then dmul total_pain (ratio 6 10) else total_pain)
      in (min 100 (max 0 (py_int total_pain')), ps\<lparr>strain_accumulation := strain\<rparr>))"

definition update_pain_level ::
    "int \<Rightarrow> string option \<Rightarrow> bool \<Rightarrow> PainFeedbackSystem \<Rightarrow> PainFeedbackSystem" where
  "update_pain_level grip material is_gripping ps =
     (let r = (if is_gripping then calculate_pain_from_grip grip material ps
               else (max 0 (pain_level ps - 2),
                     ps\<lparr>strain_accumulation :=
                          py_max (d_int 0) (dsub (strain_accumulation ps) (ratio 5 10))\<rparr>));
          new_pain = fst r;
          ps1 = snd r;
          h = deque_append 20 (pain_history ps1) new_pain;
          level = (if h \<noteq> [] then int_mean h else 0)
      in ps1\<lparr>pain_history := h, pain_level := level,
              relief_mode := (if 75 < level then True
                              else if level < 40 then False
                              else relief_mode ps1)\<rparr>)"

text \<open>Running the same step \<open>n\<close> times, as the cycle loop does.\<close>

primrec iter :: "nat \<Rightarrow> ('a \<Rightarrow> 'a) \<Rightarrow> 'a \<Rightarrow> 'a" where
  "iter 0 f x = x"
| "iter (Suc n) f x = iter n f (f x)"

text \<open>
  A sequence of calls of \<open>update_pain_level\<close>, each with its grip, material and
  is-gripping flag: the pain states after each call, in order.
\<close>

fun pain_trace ::
    "(int \<times> string option \<times> bool) list \<Rightarrow> PainFeedbackSystem \<Rightarrow> PainFeedbackSystem list" where
  "pain_trace [] ps = []"
| "pain_trace (u # us) ps =
     update_pain_level (fst u) (fst (snd u)) (snd (snd u)) ps
       # pain_trace us (update_pain_level (fst u) (fst (snd u)) (snd (snd u)) ps)"

text \<open>The states a step passes through when it runs \<open>n\<close> times, the first one included.\<close>

fun trace :: "nat \<Rightarrow> ('a \<Rightarrow> 'a) \<Rightarrow> 'a \<Rightarrow> 'a list" where
  "trace 0 f x = [x]"
| "trace (Suc n) f x = x # trace n f (f x)"

text \<open>
  The pain update of a cycle that grips metal with grip 90, and the strain update that
  \<open>calculate_pain_from_grip\<close> makes for a grip.
\<close>

definition grip_metal_90 :: "PainFeedbackSystem \<Rightarrow> PainFeedbackSystem" where
  "grip_metal_90 = update_pain_level 90 (Some ''metal'') True"

definition strain_step :: "int \<Rightarrow> dbl \<Rightarrow> dbl" where
  "strain_step grip x = py_min (dadd x (dmul (ratio grip 100) (ratio 5 10))) (d_int 50)"

section \<open>Material classifier\<close>

text \<open>
  The feature vector returned by \<open>analyze_texture\<close> (image processing, outside the
  model): the five measurements are inputs here.
\<close>

record texture_features =
  edge_density :: dbl
  texture_energy :: dbl
  brightness_std :: dbl
  saturation_mean :: dbl
  highlight_ratio :: dbl

text \<open>The dict \<open>scores\<close>, in insertion order.\<close>

definition material_scores :: "texture_features \<Rightarrow> (string \<times> dbl) list" where
  "material_scores f =
     (let ed = edge_density f; te = texture_energy f;
          sm = saturation_mean f; hr = highlight_ratio f;
          one = d_int 1
      in [(''fabric'', dadd (dmul ed (d_int 3)) (dmul (dsub one hr) (d_int 2))),
          (''metal'', dadd (dmul hr (d_int 5)) (dmul (dsub one ed) (d_int 2))),
          (''glass'', dadd (dmul hr (d_int 6)) (dmul (dsub one ed) (d_int 3))),
          (''wood'', dadd (ddiv te (d_int 300)) (dmul ed (d_int 2))),
          (''plastic'', dadd (ddiv sm (d_int 150))
                             (dmul (dsub one (ddiv te (d_int 300))) (ratio 15 10))),
          (''paper'', dadd (dmul ed (d_int 4)) (dmul (dsub one hr) (d_int 2))),
          (''ceramic'', dadd (dmul (dsub one ed) (d_int 2)) (dmul hr (d_int 2))),
          (''stone'', dadd (dadd (ddiv te (d_int 250)) (dmul hr (d_int 3)))
                           (dmul (dsub one ed) (ratio 25 10)))])"

text \<open>
  \<open>sum(scores.values())\<close> adds from the left, starting at 0; \<open>max(scores,
  key=scores.get)\<close> walks the keys in insertion order.
\<close>

definition feature_scoring :: "texture_features \<Rightarrow> string option \<times> dbl" where
  "feature_scoring f =
     (let scores = material_scores f;
          best = py_max_from dless snd (hd scores) (tl scores);
          total_score = fold (\<lambda>kv acc. dadd acc (snd kv)) scores (d_int 0);
          confidence = (if dless (d_int 0) total_score then ddiv (snd best) total_score
                        else d_int 0)
      in (Some (fst best), py_min confidence (d_int 1)))"

definition classify_material :: "texture_features option \<Rightarrow> string option \<Rightarrow> string option \<times> dbl" where
  "classify_material features detected_object =
     (case features of
        None \<Rightarrow> (None, d_int 0)
      | Some f \<Rightarrow>
          (case (if truthy detected_object then OBJECT_MATERIAL_MAP (the detected_object)
                 else None) of
             Some material \<Rightarrow> (Some material, ratio 85 100)
           | None \<Rightarrow> feature_scoring f))"

section \<open>HapticFeedbackSimulator\<close>

text \<open>
  The sounds handed to the audio backend are kept as a log, each tagged with the method
  that asked for it and with the delay of its timer (0 for an immediate beep).
  \<open>generate_beep\<close> plays nothing when audio is unavailable. The counter
  \<open>feedback_animation\<close> belongs to the drawing code and is left out, and so are the
  insight texts and their sound (\<open>object_insight_alert\<close>), which touch no other state.
\<close>

datatype alert_source = Proximity_alert | Contact_feedback | Pain_alert

datatype sound = Sound alert_source dbl dbl dbl dbl

record HapticFeedbackSimulator =
  audio_enabled :: bool
  last_beep_time :: dbl
  proximity_alert_active :: bool
  contact_feedback_active :: bool
  pain_alert_active :: bool
  sounds :: "sound list"

definition haptic_init :: "bool \<Rightarrow> HapticFeedbackSimulator" where
  "haptic_init audio =
     \<lparr>audio_enabled = audio, last_beep_time = d_int 0, proximity_alert_active = False,
      contact_feedback_active = False, pain_alert_active = False, sounds = []\<rparr>"

definition generate_beep ::
    "alert_source \<Rightarrow> dbl \<Rightarrow> dbl \<Rightarrow> dbl \<Rightarrow> dbl \<Rightarrow> HapticFeedbackSimulator \<Rightarrow> HapticFeedbackSimulator" where
  "generate_beep src frequency duration volume delay h =
     (if \<not> audio_enabled h then h
      else h\<lparr>sounds := sounds h @ [Sound src frequency duration volume delay]\<rparr>)"

definition proximity_alert :: "int \<Rightarrow> dbl \<Rightarrow> HapticFeedbackSimulator \<Rightarrow> HapticFeedbackSimulator" where
  "proximity_alert distance_cm current_time h =
     (if distance_cm \<le> 10 \<and> dless (ratio 2 10) (dsub current_time (last_beep_time h)) then
        (let freq = 400 + (10 - distance_cm) * 60;
             volume = py_min (dadd (ratio 4 10) (dmul (d_int (10 - distance_cm)) (ratio 4 100)))
                             (ratio 8 10);
             h1 = generate_beep Proximity_alert (d_int freq) (ratio 12 100) volume (d_int 0) h
         in h1\<lparr>last_beep_time := current_time, proximity_alert_active := True\<rparr>)
      else h)"

definition contact_feedback ::
    "string option \<Rightarrow> int \<Rightarrow> HapticFeedbackSimulator \<Rightarrow> HapticFeedbackSimulator" where
  "contact_feedback material grip h =
     (case (if truthy material then MATERIAL_DATABASE (the material) else None) of
        None \<Rightarrow> h
      | Some mat_info \<Rightarrow>
          (let freq = d_int (sound_freq mat_info);
               duration = dadd (ratio 2 10) (ratio grip 400);
               volume = py_min (dadd (ratio 4 10) (ratio grip 250)) (ratio 8 10);
               h1 = generate_beep Contact_feedback freq duration volume (d_int 0) h;
               h2 = (if 70 < grip \<and> the material \<in> set [''glass'', ''ceramic'', ''paper'']
                     then generate_beep Contact_feedback (dmul freq (ratio 13 10)) (ratio 1 10)
                            (dmul volume (ratio 7 10)) (ratio 15 100) h1
                     else h1)
           in h2\<lparr>contact_feedback_active := True\<rparr>))"

definition pain_alert :: "int \<Rightarrow> HapticFeedbackSimulator \<Rightarrow> HapticFeedbackSimulator" where
  "pain_alert level h =
     (if 70 < level then
        (let h1 = generate_beep Pain_alert (d_int 800) (ratio 2 10) (ratio 7 10) (d_int 0) h;
             h2 = generate_beep Pain_alert (d_int 900) (ratio 15 100) (ratio 6 10) (ratio 12 100) h1
         in h2\<lparr>pain_alert_active := True\<rparr>)
      else if 50 < level then
        (let h1 = generate_beep Pain_alert (d_int 600) (ratio 15 100) (ratio 5 10) (d_int 0) h
         in h1\<lparr>pain_alert_active := True\<rparr>)
      else h)"

section \<open>IntegratedProstheMind\<close>

text \<open>
  The session state of \<open>IntegratedProstheMind\<close>. The camera, the detector, the insight
  panels (\<open>current_insight\<close>, \<open>current_material_insight\<close>, \<open>insight_animation\<close>,
  \<open>last_insight_sound\<close>) and all drawing are outside the model; none of them is read by
  the code modelled here.
\<close>

type_synonym box = "int \<times> int \<times> int \<times> int"

record IntegratedProstheMind =
  haptic :: HapticFeedbackSimulator
  pain_system :: PainFeedbackSystem
  current_material :: "string option"
  current_object :: "string option"
  current_grip :: int
  target_grip :: int
  confidence :: dbl
  object_distance_cm :: "int option"
  grip_history :: "int list"
  material_history :: "string list"
  detection_box :: "box option"
  was_in_contact :: bool
  contact_frame_count :: int
  last_pain_alert :: dbl

definition session_init :: "bool \<Rightarrow> IntegratedProstheMind" where
  "session_init audio =
     \<lparr>haptic = haptic_init audio, pain_system = pain_init,
      current_material = None, current_object = None, current_grip = 0, target_grip = 0,
      confidence = d_int 0, object_distance_cm = None, grip_history = [],
      material_history = [], detection_box = None, was_in_contact = False,
      contact_frame_count = 0, last_pain_alert = d_int 0\<rparr>"

text \<open>
  What one detection cycle (a frame with \<open>frame_count % 3 == 0\<close>) reads from outside:
  the frame area, the result of \<open>detect_with_yolo\<close> (a box with its class name, or
  nothing), the features \<open>analyze_texture\<close> computes for the box, and the two readings of
  \<open>time.time()\<close>, inside \<open>proximity_alert\<close> and before the pain alert.
\<close>

record cycle_input =
  frame_area :: int
  detection :: "(box \<times> string) option"
  features :: "texture_features option"
  time_proximity :: dbl
  time_pain :: dbl

datatype py_error = ZeroDivisionError | KeyError string | ValueError

definition estimate_distance :: "int \<Rightarrow> int \<Rightarrow> py_error + int" where
  "estimate_distance box_area frame_area' =
     (if frame_area' = 0 then Inl ZeroDivisionError
      else let size_ratio = ratio box_area frame_area'
           in Inr (if dless (ratio 3 10) size_ratio then 5
                   else if dless (ratio 2 10) size_ratio then 8
                   else if dless (ratio 15 100) size_ratio then 12
                   else if dless (ratio 1 10) size_ratio then 20
                   else if dless (ratio 5 100) size_ratio then 35
                   else 50))"

text \<open>
  \<open>max(set(self.material_history), key=self.material_history.count)\<close>. The order in
  which a Python set of strings is walked depends on the string hashes of the process;
  it is the parameter \<open>set_order\<close>, which maps the history to the list of its distinct
  entries in that order.
\<close>

definition smooth_material ::
    "(string list \<Rightarrow> string list) \<Rightarrow> string list \<Rightarrow> string \<Rightarrow> py_error + string" where
  "smooth_material set_order h material =
     (if 5 \<le> length h then
        (case py_max_key (<) (count_list h) (set_order h) of
           None \<Rightarrow> Inl ValueError
         | Some m \<Rightarrow> Inr m)
      else Inr material)"

text \<open>The branch of \<open>run\<close> taken when \<open>material and confidence > 0.4\<close>.\<close>

definition accepted_branch ::
    "(string list \<Rightarrow> string list) \<Rightarrow> cycle_input \<Rightarrow> string \<Rightarrow> dbl \<Rightarrow> IntegratedProstheMind
       \<Rightarrow> py_error + IntegratedProstheMind" where
  "accepted_branch set_order inp raw_material conf s =
     (let mh = deque_append 10 (material_history s) raw_material
      in case smooth_material set_order mh raw_material of
           Inl e \<Rightarrow> Inl e
         | Inr material \<Rightarrow>
             (case MATERIAL_DATABASE material of
                None \<Rightarrow> Inl (KeyError material)
              | Some info \<Rightarrow>
                  (let is_new_contact = \<not> was_in_contact s;
                       gh = deque_append 15 (grip_history s) (grip_strength info);
                       grip = int_mean gh;
                       fire = (is_new_contact \<or> contact_frame_count s = 0);
                       hap1 = (if fire then contact_feedback (Some material) grip (haptic s)
                               else haptic s);
                       cfc = (if fire then 30 else contact_frame_count s);
                       cfc' = (if 0 < cfc then cfc - 1 else cfc);
                       ps = update_pain_level grip (Some material) True (pain_system s);
                       alert = (60 < pain_level ps \<and>
                                dless (d_int 3) (dsub (time_pain inp) (last_pain_alert s)))
                   in Inr (s\<lparr>material_history := mh,
                              current_material := Some material,
                              confidence := conf,
                              target_grip := grip_strength info,
                              grip_history := gh,
                              current_grip := grip,
                              contact_frame_count := cfc',
                              was_in_contact := True,
                              pain_system := ps,
                              haptic := (if alert then pain_alert (pain_level ps) hap1 else hap1),
                              last_pain_alert := (if alert then time_pain inp
                                                  else last_pain_alert s)\<rparr>))))"

text \<open>The linear decay \<open>max(0, self.confidence - rate)\<close> of both \<open>else\<close> branches.\<close>

definition confidence_decay :: "dbl \<Rightarrow> dbl \<Rightarrow> dbl" where
  "confidence_decay rate c = py_max (d_int 0) (dsub c rate)"

text \<open>The \<open>else\<close> branch of a detection whose classification is not accepted.\<close>

definition weak_branch :: "IntegratedProstheMind \<Rightarrow> IntegratedProstheMind" where
  "weak_branch s =
     (let c = confidence_decay (ratio 3 100) (confidence s)
      in if dless c (ratio 2 10) then
           s\<lparr>confidence := c, current_material := None, was_in_contact := False,
             pain_system := update_pain_level 0 None False (pain_system s)\<rparr>
         else s\<lparr>confidence := c\<rparr>)"

text \<open>The \<open>else\<close> branch of a cycle without a detection box.\<close>

definition no_detection_branch :: "IntegratedProstheMind \<Rightarrow> IntegratedProstheMind" where
  "no_detection_branch s =
     (let c = confidence_decay (ratio 5 100) (confidence s)
      in if dless c (ratio 1 10) then
           (let gh = deque_append 15 (grip_history s) 0
            in s\<lparr>confidence := c, current_material := None, current_object := None,
                 detection_box := None, object_distance_cm := None,
                 grip_history := gh, current_grip := int_mean gh,
                 was_in_contact := False,
                 haptic := (haptic s)\<lparr>proximity_alert_active := False\<rparr>,
                 pain_system := update_pain_level 0 None False (pain_system s)\<rparr>)
         else s\<lparr>confidence := c\<rparr>)"

text \<open>
  The classification is accepted when \<open>material and confidence > 0.4\<close>.
\<close>

definition accepted :: "string option \<times> dbl \<Rightarrow> bool" where
  "accepted cm = (truthy (fst cm) \<and> dless (ratio 4 10) (snd cm))"

text \<open>
  One detection cycle: the body of \<open>if frame_count % 3 == 0\<close> in \<open>run\<close>. An exception
  leaves the loop, so the cycle returns the error instead of a state.
\<close>

definition run_cycle ::
    "(string list \<Rightarrow> string list) \<Rightarrow> cycle_input \<Rightarrow> IntegratedProstheMind
       \<Rightarrow> py_error + IntegratedProstheMind" where
  "run_cycle set_order inp s =
     (case detection inp of
        None \<Rightarrow> Inr (no_detection_branch s)
      | Some det \<Rightarrow>
          (let bx = fst det; detected_object = snd det;
               s1 = s\<lparr>detection_box := Some bx, current_object := Some detected_object\<rparr>;
               x1 = fst bx; y1 = fst (snd bx); x2 = fst (snd (snd bx)); y2 = snd (snd (snd bx));
               box_area = (x2 - x1) * (y2 - y1)
           in case estimate_distance box_area (frame_area inp) of
                Inl e \<Rightarrow> Inl e
              | Inr distance \<Rightarrow>
                  (let s2 = s1\<lparr>object_distance_cm := Some distance,
                                haptic := (if distance \<le> 10
                                           then proximity_alert distance (time_proximity inp) (haptic s1)
                                           else haptic s1)\<rparr>;
                       cm = classify_material (features inp) (Some detected_object)
                   in if accepted cm then accepted_branch set_order inp (the (fst cm)) (snd cm) s2
                      else Inr (weak_branch s2))))"

text \<open>The key \<open>R\<close>.\<close>

definition reset :: "IntegratedProstheMind \<Rightarrow> IntegratedProstheMind" where
  "reset s =
     s\<lparr>current_material := None, current_object := None, current_grip := 0,
       confidence := d_int 0, grip_history := [], material_history := [],
       pain_system := (pain_system s)\<lparr>pain_level := 0, strain_accumulation := d_int 0\<rparr>\<rparr>"

text \<open>Detection cycles in sequence, stopping at the first exception.\<close>

fun run_cycles ::
    "(string list \<Rightarrow> string list) \<Rightarrow> cycle_input list \<Rightarrow> IntegratedProstheMind
       \<Rightarrow> py_error + IntegratedProstheMind" where
  "run_cycles set_order [] s = Inr s"
| "run_cycles set_order (inp # inps) s =
     (case run_cycle set_order inp s of
        Inl e \<Rightarrow> Inl e
      | Inr s' \<Rightarrow> run_cycles set_order inps s')"

text \<open>The states the session can be in: any mix of detection cycles and resets.\<close>

inductive reachable :: "(string list \<Rightarrow> string list) \<Rightarrow> bool \<Rightarrow> IntegratedProstheMind \<Rightarrow> bool"
  for set_order :: "string list \<Rightarrow> string list" and audio :: bool where
  start: "reachable set_order audio (session_init audio)"
| cycle: "reachable set_order audio s \<Longrightarrow> run_cycle set_order inp s = Inr s'
          \<Longrightarrow> reachable set_order audio s'"
| reset: "reachable set_order audio s \<Longrightarrow> reachable set_order audio (reset s)"

text \<open>
  Inputs for concrete runs: a 1280 x 720 frame in which the detector reports one box of
  280 x 320 pixels with the given class name at time \<open>t\<close> (in seconds), and a frame in
  which it reports nothing.
\<close>

definition example_frame :: "string \<Rightarrow> int \<Rightarrow> cycle_input" where
  "example_frame label t =
     \<lparr>frame_area = 921600, detection = Some ((500, 200, 780, 520), label),
      features = Some \<lparr>edge_density = Dbl 1 (- 3), texture_energy = Dbl 125 0,
                        brightness_std = Dbl 5 3, saturation_mean = Dbl 15 2,
                        highlight_ratio = Dbl 1 (- 4)\<rparr>,
      time_proximity = d_int t, time_pain = d_int t\<rparr>"

definition empty_frame :: "int \<Rightarrow> cycle_input" where
  "empty_frame t =
     \<lparr>frame_area = 921600, detection = None, features = None,
      time_proximity = d_int t, time_pain = d_int t\<rparr>"

text \<open>
  The state of a session with audio after one detection cycle that saw a wine glass at
  time 100 (computed from \<open>run_cycle\<close> in the lemma \<open>first_cycle\<close>).
\<close>

definition state_after_wine_glass :: IntegratedProstheMind where
  "state_after_wine_glass =
     \<lparr>haptic =
            \<lparr>audio_enabled = True, last_beep_time = Dbl 0 0, proximity_alert_active = False,
             contact_feedback_active = True, pain_alert_active = True,
             sounds =
               [Sound Contact_feedback (Dbl 25 5) (Dbl 3715469692580659 (- 53))
                  (Dbl 3332663724254167 (- 52)) (Dbl 0 0),
                Sound Contact_feedback (Dbl 65 4) (Dbl 3602879701896397 (- 55))
                  (Dbl 2332864606977917 (- 52)) (Dbl 5404319552844595 (- 55)),
                Sound Pain_alert (Dbl 75 3) (Dbl 5404319552844595 (- 55)) (Dbl 1 (- 1))
                  (Dbl 0 0)]\<rparr>,
          pain_system =
            \<lparr>pain_level = 61, pain_history = [61],
             strain_accumulation = Dbl 7656119366529843 (- 54), relief_mode = False\<rparr>,
          current_material = Some ''glass'', current_object = Some ''wine glass'',
          current_grip = 85, target_grip = 85, confidence = Dbl 7656119366529843 (- 53),
          object_distance_cm = Some 35, grip_history = [85], material_history = [''glass''],
          detection_box = Some (500, 200, 780, 520), was_in_contact = True,
          contact_frame_count = 29, last_pain_alert = Dbl 25 2\<rparr>"

text \<open>
  What holds of every state of the session: the entries of the pain history and the
  reported level lie in 0..100, every entry of the grip history is 0 or the base grip
  strength of a material of the table, and the applied grip is the truncated mean of the
  grip history (0 while it is empty).
\<close>

definition session_ok :: "IntegratedProstheMind \<Rightarrow> bool" where
  "session_ok s =
     ((\<forall>x \<in> set (pain_history (pain_system s)). 0 \<le> x \<and> x \<le> 100)
      \<and> 0 \<le> pain_level (pain_system s) \<and> pain_level (pain_system s) \<le> 100
      \<and> (\<forall>x \<in> set (grip_history s).
            x = 0 \<or> (\<exists>m info. MATERIAL_DATABASE m = Some info \<and> grip_strength info = x))
      \<and> current_grip s = (if grip_history s = [] then 0 else int_mean (grip_history s)))"

text \<open>
  The state of that session after three more cycles that saw the wine glass, at times
  101, 102 and 103 (computed in the lemma \<open>four_glasses\<close>).
\<close>

definition state_after_four_glasses :: IntegratedProstheMind where
  "state_after_four_glasses =
     \<lparr>haptic = \<lparr>audio_enabled = True, last_beep_time = Dbl 0 0,
       proximity_alert_active = False, contact_feedback_active = True,
       pain_alert_active = True,
       sounds = [Sound Contact_feedback (Dbl 25 5) (Dbl 3715469692580659 (- 53)) (Dbl 3332663724254167 (- 52)) (Dbl 0 0),
       Sound Contact_feedback (Dbl 65 4) (Dbl 3602879701896397 (- 55)) (Dbl 2332864606977917 (- 52)) (Dbl 5404319552844595 (- 55)),
       Sound Pain_alert (Dbl 75 3) (Dbl 5404319552844595 (- 55)) (Dbl 1 (- 1)) (Dbl 0 0)]\<rparr>,
       pain_system = \<lparr>pain_level = 61, pain_history = [61, 61, 62, 62],
       strain_accumulation = Dbl 7656119366529843 (- 52), relief_mode = False\<rparr>,
       current_material = Some ''glass'', current_object = Some ''wine glass'',
       current_grip = 85, target_grip = 85, confidence = Dbl 7656119366529843 (- 53),
       object_distance_cm = Some 35, grip_history = [85, 85, 85, 85],
       material_history = [''glass'', ''glass'', ''glass'', ''glass''],
       detection_box = Some (500, 200, 780, 520), was_in_contact = True,
       contact_frame_count = 26, last_pain_alert = Dbl 25 2\<rparr>"


text \<open>
  The beeps that \<open>pain_alert\<close> has played, and the condition under which the cycle loop
  calls \<open>pain_alert\<close>: in a cycle whose detection is accepted, when the level reported
  after the update is above 60 and more than 3 seconds have passed since the last pain
  alert.
\<close>

fun is_pain_sound :: "sound \<Rightarrow> bool" where
  "is_pain_sound (Sound src frequency duration volume delay) = (src = Pain_alert)"

definition pain_sounds :: "HapticFeedbackSimulator \<Rightarrow> sound list" where
  "pain_sounds h = filter is_pain_sound (sounds h)"


section \<open>Evaluation rules\<close>

text \<open>
  Equations that evaluate the float operations and the table lookups on numerals, so
  that concrete runs of the model below are computed by rewriting.
\<close>

lemma bitlen_eval:
  "bitlen 0 = 0" "bitlen 1 = 1" "bitlen (- numeral k) = 0"
  "bitlen (numeral (num.Bit0 k)) = 1 + bitlen (numeral k)"
  "bitlen (numeral (num.Bit1 k)) = 1 + bitlen (numeral k)"
  "bitlen (numeral num.One) = 1"
  by (simp_all add: bitlen.simps)

lemma norm_dbl_eval:
  "norm_dbl 0 e = Dbl 0 0" "norm_dbl 1 e = Dbl 1 e" "norm_dbl (- 1) e = Dbl (- 1) e"
  "norm_dbl (numeral (num.Bit0 k)) e = norm_dbl (numeral k) (e + 1)"
  "norm_dbl (numeral (num.Bit1 k)) e = Dbl (numeral (num.Bit1 k)) e"
  "norm_dbl (numeral num.One) e = Dbl 1 e"
  "norm_dbl (- numeral (num.Bit0 k)) e = norm_dbl (- numeral k) (e + 1)"
  "norm_dbl (- numeral (num.Bit1 k)) e = Dbl (- numeral (num.Bit1 k)) e"
  "norm_dbl (- numeral num.One) e = Dbl (- 1) e"
  by (simp_all add: norm_dbl.simps [of "numeral (num.Bit0 k)"] norm_dbl.simps [of "- numeral (num.Bit0 k)"]
       norm_dbl.simps [of "numeral (num.Bit1 k)"] norm_dbl.simps [of "- numeral (num.Bit1 k)"] 
       norm_dbl.simps [of 0] norm_dbl.simps [of 1] norm_dbl.simps [of "- 1"])

lemma iter_numeral: "iter (numeral k) f x = iter (pred_numeral k) f (f x)"
  by (simp add: numeral_eq_Suc)

lemmas float_ev = bitlen_eval norm_dbl_eval round53_def d_int_def ratio_def py_max_def py_min_def
  int_mean_def Let_def iter_numeral


lemma lits:
  "d_int 0 = Dbl 0 0" "d_int 1 = Dbl 1 0" "d_int 3 = Dbl 3 0" "d_int 50 = Dbl 25 1"
  "ratio 5 10 = Dbl 1 (- 1)" "ratio 15 10 = Dbl 3 (- 1)"
  "ratio 6 10 = Dbl 5404319552844595 (- 53)"
  "ratio 1 10 = Dbl 3602879701896397 (- 55)"
  "ratio 2 10 = Dbl 3602879701896397 (- 54)"
  "ratio 4 10 = Dbl 3602879701896397 (- 53)"
  "ratio 3 100 = Dbl 1080863910568919 (- 55)"
  "ratio 5 100 = Dbl 3602879701896397 (- 56)"
  "ratio 85 100 = Dbl 7656119366529843 (- 53)"
  by (simp_all add: float_ev cong: let_weak_cong)

lemma db_lookup:
  "MATERIAL_DATABASE ''metal'' = Some \<lparr>grip_strength = 70, haptic_intensity = ''HIGH'',
                   sound_freq = 600, pain_factor = Dbl 3152519739159347 (- 52)\<rparr>"
  "MATERIAL_DATABASE ''glass'' = Some \<lparr>grip_strength = 85, haptic_intensity = ''VERY HIGH'',
                   sound_freq = 800, pain_factor = Dbl 8106479329266893 (- 53)\<rparr>"
  "MATERIAL_DATABASE ''ceramic'' = Some \<lparr>grip_strength = 75, haptic_intensity = ''HIGH'',
                     sound_freq = 700, pain_factor = Dbl 3602879701896397 (- 52)\<rparr>"
  by (simp_all add: MATERIAL_DATABASE_def dict_literal_def float_ev cong: let_weak_cong)

lemma obj_lookup:
  "OBJECT_MATERIAL_MAP ''wine glass'' = Some ''glass''"
  "OBJECT_MATERIAL_MAP ''vase'' = Some ''ceramic''"
  "OBJECT_MATERIAL_MAP ''knife'' = Some ''metal''"
  by (simp_all add: OBJECT_MATERIAL_MAP_def dict_literal_def)

lemmas pain_ev = deque_append_def db_lookup lits pain_init_def
  material_pain_factor_def calculate_pain_from_grip_def update_pain_level_def

lemmas cycle_ev = obj_lookup truthy_def classify_material_def haptic_init_def generate_beep_def
  proximity_alert_def contact_feedback_def pain_alert_def session_init_def estimate_distance_def
  smooth_material_def py_max_key_def accepted_branch_def weak_branch_def no_detection_branch_def
  accepted_def run_cycle_def reset_def confidence_decay_def

section \<open>Rounding keeps bounds\<close>

text \<open>
  Rounding never crosses an integer bound below \<open>2 ^ 53\<close>: a quotient of integers that
  is at most \<open>c\<close> rounds to a double that is at most \<open>c\<close>, and truncation keeps it
  there. This is what bounds \<open>int(np.mean(h))\<close>.
\<close>

lemma dval_norm: "dval (norm_dbl m e) = of_int m * 2 powi e"
proof (induction m e rule: norm_dbl.induct)
  case (1 m e)
  show ?case
  proof (cases "m = 0")
    case True
    then show ?thesis by (simp add: norm_dbl.simps)
  next
    case False
    show ?thesis
    proof (cases "even m")
      case True
      then obtain k where k: "m = 2 * k" by (auto elim: evenE)
      have "dval (norm_dbl m e) = dval (norm_dbl (m div 2) (e + 1))"
        using False True by (subst norm_dbl.simps) simp
      also have "\<dots> = of_int (m div 2) * 2 powi (e + 1)"
        using 1 False True by simp
      also have "\<dots> = of_int m * 2 powi e"
        using k by (simp add: power_int_add)
      finally show ?thesis .
    next
      case odd: False
      then show ?thesis using False by (subst norm_dbl.simps) simp
    qed
  qed
qed

lemma bitlen_nonneg: "0 \<le> bitlen n"
  by (induction n rule: bitlen.induct) (subst bitlen.simps, simp)

lemma bitlen_pos: "0 < n \<Longrightarrow> 0 < bitlen n"
  using bitlen_nonneg [of "n div 2"] by (subst bitlen.simps) simp

lemma bitlen_lower: "0 < n \<Longrightarrow> 2 ^ nat (bitlen n - 1) \<le> n"
proof (induction n rule: bitlen.induct)
  case (1 n)
  have b: "bitlen n = 1 + bitlen (n div 2)" using 1(2) by (subst bitlen.simps) simp
  show ?case
  proof (cases "n = 1")
    case True
    then show ?thesis using b by (simp add: bitlen.simps [of 0])
  next
    case False
    with 1(2) have h: "0 < n div 2" by simp
    have ih: "2 ^ nat (bitlen (n div 2) - 1) \<le> n div 2" using 1(1) 1(2) h by simp
    have pos: "0 < bitlen (n div 2)" using h by (rule bitlen_pos)
    have "nat (bitlen n - 1) = Suc (nat (bitlen (n div 2) - 1))" using b pos by simp
    then have "(2::int) ^ nat (bitlen n - 1) = 2 * 2 ^ nat (bitlen (n div 2) - 1)" by simp
    also have "\<dots> \<le> 2 * (n div 2)" using ih by simp
    also have "\<dots> \<le> n" by simp
    finally show ?thesis .
  qed
qed

lemma dval_round53_le:
  assumes m: "0 \<le> m" and c: "0 \<le> c" "c < 2 ^ 53" and le: "of_int m * 2 powi e \<le> (of_int c :: real)"
  shows "0 \<le> dval (round53 m e) \<and> dval (round53 m e) \<le> of_int c"
proof -
  define sh where "sh = max (bitlen \<bar>m\<bar> - 53) (- 1074 - e)"
  show ?thesis
  proof (cases "sh \<le> 0")
    case True
    then have "round53 m e = norm_dbl m e" by (simp add: round53_def sh_def Let_def)
    then show ?thesis using m le by (simp add: dval_norm)
  next
    case False
    then have shpos: "0 < sh" by simp
    define q where "q = m div 2 ^ nat sh"
    define r where "r = m mod 2 ^ nat sh"
    define q' where "q' = (if 2 ^ nat (sh - 1) < r \<or> (r = 2 ^ nat (sh - 1) \<and> odd q) then q + 1 else q)"
    have am: "\<bar>m\<bar> = m" using m by simp
    have rd0: "round53 m e = norm_dbl (sgn m * q') (e + sh)"
      by (simp only: round53_def Let_def am sh_def q'_def q_def r_def False [unfolded sh_def am]
            if_False)
    have rd: "round53 m e = norm_dbl q' (e + sh)"
    proof (cases "m = 0")
      case True
      then have "q' = 0" by (simp add: q'_def q_def r_def)
      then show ?thesis using True rd0 by simp
    next
      case False
      with m have "sgn m = 1" by simp
      then show ?thesis using rd0 by simp
    qed
    have q0: "0 \<le> q" using m by (simp add: q_def pos_imp_zdiv_nonneg_iff)
    have q'0: "0 \<le> q'" using q0 by (simp add: q'_def)
    have esh: "e + sh \<le> 0"
    proof (cases "sh = - 1074 - e")
      case True
      then show ?thesis by simp
    next
      case False
      then have s: "sh = bitlen \<bar>m\<bar> - 53" by (simp add: sh_def max_def split: if_splits)
      with shpos have mp: "0 < m" using m by (cases "m = 0") (simp_all add: bitlen.simps [of 0])
      have lo: "2 ^ nat (bitlen m - 1) \<le> m" using mp by (rule bitlen_lower)
      have bl: "0 < bitlen m - 1" using s shpos mp by simp
      have "(2::real) powi (bitlen m - 1) = 2 ^ nat (bitlen m - 1)"
        using bl by (simp add: power_int_def)
      then have "(2::real) powi (bitlen m - 1 + e) = 2 ^ nat (bitlen m - 1) * 2 powi e"
        by (simp add: power_int_add)
      also have "\<dots> \<le> of_int m * 2 powi e"
      proof -
        have "(2::real) ^ nat (bitlen m - 1) \<le> of_int m"
          using lo by (metis of_int_le_iff of_int_numeral of_int_power)
        then show ?thesis by (simp add: mult_right_mono)
      qed
      also have "\<dots> \<le> of_int c" by (rule le)
      also have "\<dots> < 2 ^ 53" using c(2) by (metis of_int_less_iff of_int_numeral of_int_power)
      finally have lt: "(2::real) powi (bitlen m - 1 + e) < 2 powi 53" by simp
      have "bitlen m - 1 + e < 53"
      proof (rule ccontr)
        assume "\<not> bitlen m - 1 + e < 53"
        then have "53 \<le> bitlen m - 1 + e" by simp
        then have "(2::real) powi 53 \<le> 2 powi (bitlen m - 1 + e)"
          by (intro power_int_increasing) simp_all
        with lt show False by simp
      qed
      then show ?thesis using s mp by simp
    qed
    define t where "t = nat (- (e + sh))"
    have e_eq: "e = - int (nat sh) - int t" using esh shpos by (simp add: t_def)
    have mle: "m \<le> c * 2 ^ t * 2 ^ nat sh"
    proof -
      have "e = - int (nat sh + t)" using e_eq by simp
      then have "(2::real) powi e = inverse (2 powi int (nat sh + t))"
        by (simp only: power_int_minus)
      also have "\<dots> = inverse (2 ^ (nat sh + t))" by (simp only: power_int_of_nat)
      also have "\<dots> = 1 / (2 ^ nat sh * 2 ^ t)" by (simp add: power_add inverse_eq_divide)
      finally have "(2::real) powi e = 1 / (2 ^ nat sh * 2 ^ t)" .
      then have "of_int m / (2 ^ nat sh * 2 ^ t) \<le> (of_int c :: real)" using le by simp
      then have "of_int m \<le> (of_int c :: real) * (2 ^ nat sh * 2 ^ t)"
        by (simp add: pos_divide_le_eq)
      then have "(of_int m :: real) \<le> of_int (c * 2 ^ t * 2 ^ nat sh)" by (simp add: mult.commute mult.left_commute)
      then show ?thesis by (simp only: of_int_le_iff)
    qed
    have qle: "q \<le> c * 2 ^ t"
    proof -
      have "m div 2 ^ nat sh \<le> (c * 2 ^ t * 2 ^ nat sh) div 2 ^ nat sh"
        by (rule zdiv_mono1 [OF mle]) simp
      then show ?thesis by (simp add: q_def)
    qed
    have q'le: "q' \<le> c * 2 ^ t"
    proof (cases "q' = q")
      case True
      then show ?thesis using qle by simp
    next
      case False
      then have up: "q' = q + 1" and rpos: "0 < r"
        by (auto simp: q'_def split: if_splits intro: less_le_trans [of 0 "2 ^ nat (sh - 1)"])
      have "m = q * 2 ^ nat sh + r" by (simp only: q_def r_def div_mult_mod_eq)
      then have "q * 2 ^ nat sh < c * 2 ^ t * 2 ^ nat sh" using rpos mle by linarith
      then have "q < c * 2 ^ t" by simp
      then show ?thesis using up by simp
    qed
    have v: "dval (round53 m e) = of_int q' * 2 powi (e + sh)" by (simp add: rd dval_norm)
    have "e + sh = - int t" using esh by (simp add: t_def)
    then have "(2::real) powi (e + sh) = inverse (2 powi int t)"
      by (simp only: power_int_minus)
    then have p2: "(2::real) powi (e + sh) = 1 / 2 ^ t"
      by (simp only: power_int_of_nat inverse_eq_divide)
    have "of_int q' * (2::real) powi (e + sh) \<le> of_int (c * 2 ^ t) * 2 powi (e + sh)"
      using q'le by (intro mult_right_mono) (simp_all only: of_int_le_iff zero_le_power_int zero_le_numeral)
    also have "\<dots> = of_int c" by (simp add: p2)
    finally have "dval (round53 m e) \<le> of_int c" by (simp add: v)
    moreover have "0 \<le> dval (round53 m e)" using q'0 by (simp add: v)
    ultimately show ?thesis by simp
  qed
qed

lemma dval_ratio_le:
  assumes p: "0 \<le> p" and q: "0 < q" and c: "0 \<le> c" "c < 2 ^ 53" and le: "p \<le> c * q"
  shows "0 \<le> dval (ratio p q) \<and> dval (ratio p q) \<le> of_int c"
proof -
  define k where "k = nat (bitlen \<bar>q\<bar> + 55 - bitlen \<bar>p\<bar>)"
  define n where "n = p * 2 ^ k"
  define mant where "mant = 2 * (n div q) + (if n mod q = 0 then 0 else 1)"
  have ap: "\<bar>p\<bar> = p" and aq: "\<bar>q\<bar> = q" and sq: "sgn q = 1" using p q by simp_all
  have n0: "0 \<le> n" using p by (simp add: n_def)
  have d0: "0 \<le> n div q" using n0 q by (simp add: pos_imp_zdiv_nonneg_iff)
  have m0: "0 \<le> mant" using d0 by (simp add: mant_def)
  have r0: "ratio p q = round53 (sgn p * mant) (- int k - 1)"
    by (simp only: ratio_def Let_def ap aq sq k_def n_def mant_def mult_1_right)
  have sm: "sgn p * mant = mant"
  proof (cases "p = 0")
    case True
    then show ?thesis by (simp add: mant_def n_def)
  next
    case False
    with p have "sgn p = 1" by simp
    then show ?thesis by simp
  qed
  have r: "ratio p q = round53 mant (- int k - 1)" by (simp only: r0 sm)
  have nle: "n \<le> q * (c * 2 ^ k)" using le by (simp add: n_def mult.commute mult.left_commute)
  have dle: "n div q \<le> c * 2 ^ k"
  proof -
    have "n div q \<le> (q * (c * 2 ^ k)) div q" by (rule zdiv_mono1 [OF nle q])
    then show ?thesis using q by simp
  qed
  have mle: "mant \<le> c * 2 ^ (k + 1)"
  proof (cases "n mod q = 0")
    case True
    then show ?thesis using dle by (simp add: mant_def)
  next
    case False
    have "0 \<le> n mod q" using q by simp
    with False have rp: "0 < n mod q" by simp
    have "n = q * (n div q) + n mod q" by simp
    then have "q * (n div q) < q * (c * 2 ^ k)" using rp nle by linarith
    then have "n div q < c * 2 ^ k" using q by simp
    then show ?thesis using False by (simp add: mant_def)
  qed
  have "- int k - 1 = - int (k + 1)" by simp
  then have "(2::real) powi (- int k - 1) = inverse (2 powi int (k + 1))"
    by (simp only: power_int_minus)
  then have p2: "(2::real) powi (- int k - 1) = 1 / 2 ^ (k + 1)"
    by (simp only: power_int_of_nat inverse_eq_divide)
  have "of_int mant * (2::real) powi (- int k - 1) \<le> of_int (c * 2 ^ (k + 1)) * 2 powi (- int k - 1)"
    using mle by (intro mult_right_mono) (simp_all only: of_int_le_iff zero_le_power_int zero_le_numeral)
  also have "\<dots> = of_int c" by (simp add: p2)
  finally have "of_int mant * (2::real) powi (- int k - 1) \<le> of_int c" .
  then show ?thesis unfolding r by (rule dval_round53_le [OF m0 c])
qed

lemma py_int_bounds:
  assumes "0 \<le> dval d" and "dval d \<le> of_int c"
  shows "0 \<le> py_int d \<and> py_int d \<le> c"
proof (cases d)
  case (Dbl m e)
  have pp: "0 < (2::real) powi e" by simp
  have m0: "0 \<le> m"
  proof (rule ccontr)
    assume "\<not> 0 \<le> m"
    then have "(of_int m :: real) < 0" by simp
    then have "of_int m * (2::real) powi e < 0" using pp by (simp add: mult_less_0_iff)
    with assms(1) Dbl show False by simp
  qed
  show ?thesis
  proof (cases "0 \<le> e")
    case True
    then have "(2::real) powi e = 2 ^ nat e" by (simp add: power_int_def)
    then have "(of_int (m * 2 ^ nat e) :: real) \<le> of_int c" using assms(2) Dbl by simp
    then have "m * 2 ^ nat e \<le> c" by (simp only: of_int_le_iff)
    then show ?thesis using True m0 Dbl by simp
  next
    case False
    then have "e = - int (nat (- e))" by simp
    then have "(2::real) powi e = inverse (2 powi int (nat (- e)))"
      by (metis power_int_minus)
    then have p2: "(2::real) powi e = 1 / 2 ^ nat (- e)"
      by (simp only: power_int_of_nat inverse_eq_divide)
    have "of_int m / 2 ^ nat (- e) \<le> (of_int c :: real)" using assms(2) Dbl by (simp add: p2)
    then have "(of_int m :: real) \<le> of_int c * 2 ^ nat (- e)" by (simp add: pos_divide_le_eq)
    then have "(of_int m :: real) \<le> of_int (c * 2 ^ nat (- e))" by simp
    then have ml: "m \<le> c * 2 ^ nat (- e)" by (simp only: of_int_le_iff)
    have "m div 2 ^ nat (- e) \<le> (c * 2 ^ nat (- e)) div 2 ^ nat (- e)"
      by (rule zdiv_mono1 [OF ml]) simp
    then have u: "m div 2 ^ nat (- e) \<le> c" by simp
    have l: "0 \<le> m div 2 ^ nat (- e)" using m0 by (simp add: pos_imp_zdiv_nonneg_iff)
    have "sgn m * (\<bar>m\<bar> div 2 ^ nat (- e)) = m div 2 ^ nat (- e)"
      using m0 by (cases "m = 0") simp_all
    then show ?thesis using False Dbl u l by simp
  qed
qed

lemma sum_list_bounds:
  "\<forall>x \<in> set h. 0 \<le> x \<and> x \<le> (c::int) \<Longrightarrow> 0 \<le> sum_list h \<and> sum_list h \<le> c * int (length h)"
  by (induction h) (auto simp: algebra_simps)

lemma int_mean_bounds:
  assumes "h \<noteq> []" and "\<forall>x \<in> set h. 0 \<le> x \<and> x \<le> 100"
  shows "0 \<le> int_mean h \<and> int_mean h \<le> 100"
proof -
  have s: "0 \<le> sum_list h \<and> sum_list h \<le> 100 * int (length h)"
    using assms(2) by (rule sum_list_bounds)
  have l: "0 < int (length h)" using assms(1) by simp
  have "0 \<le> dval (ratio (sum_list h) (int (length h)))
        \<and> dval (ratio (sum_list h) (int (length h))) \<le> of_int 100"
    using s l by (intro dval_ratio_le) simp_all
  then show ?thesis unfolding int_mean_def by (intro py_int_bounds) simp_all
qed

section \<open>Label prior\<close>

text \<open>
  C3. A region labelled "wine glass" is classified as glass with confidence 0.85 (the
  double written \<open>0.85\<close>), whatever the features are.
\<close>

theorem wine_glass_is_glass:
  "classify_material (Some f) (Some ''wine glass'') = (Some ''glass'', ratio 85 100)"
  by (simp add: classify_material_def truthy_def OBJECT_MATERIAL_MAP_def dict_literal_def)

text \<open>
  C10. A region labelled "vase" with extracted features is classified as ceramic with
  confidence 0.85, not as glass: of the two entries for \<open>vase\<close> in the table the later
  one is in force.
\<close>

theorem vase_is_ceramic:
  "classify_material (Some f) (Some ''vase'') = (Some ''ceramic'', ratio 85 100)
   \<and> fst (classify_material (Some f) (Some ''vase'')) \<noteq> Some ''glass''
   \<and> OBJECT_MATERIAL_MAP ''vase'' = Some ''ceramic''"
  by (simp add: classify_material_def truthy_def OBJECT_MATERIAL_MAP_def dict_literal_def)

section \<open>Relief mode\<close>

lemma relief_step:
  "relief_mode (update_pain_level g m ig ps) =
     (if 75 < pain_level (update_pain_level g m ig ps) then True
      else if pain_level (update_pain_level g m ig ps) < 40 then False
      else relief_mode ps)"
  by (simp add: update_pain_level_def calculate_pain_from_grip_def Let_def)

lemma relief_kept_high:
  "relief_mode ps \<Longrightarrow> \<forall>p \<in> set (pain_trace us ps). 40 \<le> pain_level p
   \<Longrightarrow> \<forall>p \<in> set (pain_trace us ps). relief_mode p"
proof (induction us arbitrary: ps)
  case Nil
  then show ?case by simp
next
  case (Cons u us)
  let ?p = "update_pain_level (fst u) (fst (snd u)) (snd (snd u)) ps"
  have lv: "40 \<le> pain_level ?p" using Cons.prems(2) by simp
  have r: "relief_mode ?p"
    using relief_step [of "fst u" "fst (snd u)" "snd (snd u)" ps] lv Cons.prems(1)
    by (simp split: if_splits)
  have "\<forall>p \<in> set (pain_trace us ?p). relief_mode p"
    using Cons.IH [OF r] Cons.prems(2) by simp
  with r show ?case by simp
qed

lemma relief_kept_band:
  "\<forall>p \<in> set (pain_trace us ps). 40 \<le> pain_level p \<and> pain_level p \<le> 75
   \<Longrightarrow> \<forall>p \<in> set (pain_trace us ps). relief_mode p = relief_mode ps"
proof (induction us arbitrary: ps)
  case Nil
  then show ?case by simp
next
  case (Cons u us)
  let ?p = "update_pain_level (fst u) (fst (snd u)) (snd (snd u)) ps"
  have lv: "40 \<le> pain_level ?p \<and> pain_level ?p \<le> 75" using Cons.prems by simp
  have r: "relief_mode ?p = relief_mode ps"
    using relief_step [of "fst u" "fst (snd u)" "snd (snd u)" ps] lv by simp
  have "\<forall>p \<in> set (pain_trace us ?p). relief_mode p = relief_mode ?p"
    using Cons.IH [of ?p] Cons.prems by simp
  with r show ?case by simp
qed

text \<open>
  C2. After every update of the pain model, relief mode is on when the reported level is
  above 75, off when it is below 40, and otherwise what it was before the update. Hence,
  along any sequence of updates whose reported levels all stay within 40..75, relief mode
  keeps its prior value; and once it is on, it stays on for as long as the reported level
  does not drop below 40.
\<close>

theorem relief_mode_hysteresis:
  "(relief_mode (update_pain_level g m ig ps) =
      (if 75 < pain_level (update_pain_level g m ig ps) then True
       else if pain_level (update_pain_level g m ig ps) < 40 then False
       else relief_mode ps))
   \<and> ((\<forall>p \<in> set (pain_trace us ps). 40 \<le> pain_level p \<and> pain_level p \<le> 75)
        \<longrightarrow> (\<forall>p \<in> set (pain_trace us ps). relief_mode p = relief_mode ps))
   \<and> (relief_mode ps \<and> (\<forall>p \<in> set (pain_trace us ps). 40 \<le> pain_level p)
        \<longrightarrow> (\<forall>p \<in> set (pain_trace us ps). relief_mode p))"
  using relief_step [of g m ig ps] relief_kept_band [of us ps] relief_kept_high [of ps us]
  by blast

lemma relief_witness_run:
  "map pain_level
     (pain_trace [(0, None, False), (0, None, False)]
        \<lparr>pain_level = 60, pain_history = [60], strain_accumulation = Dbl 0 0,
         relief_mode = True\<rparr>) = [59, 58]"
  by (simp add: float_ev pain_ev cong: let_weak_cong)

theorem relief_mode_hysteresis_witness:
  "map pain_level
     (pain_trace [(0, None, False), (0, None, False)]
        \<lparr>pain_level = 60, pain_history = [60], strain_accumulation = Dbl 0 0,
         relief_mode = True\<rparr>) = [59, 58]
   \<and> map relief_mode
     (pain_trace [(0, None, False), (0, None, False)]
        \<lparr>pain_level = 60, pain_history = [60], strain_accumulation = Dbl 0 0,
         relief_mode = True\<rparr>) = [True, True]"
proof -
  let ?ps = "\<lparr>pain_level = 60, pain_history = [60], strain_accumulation = Dbl 0 0,
              relief_mode = True\<rparr>"
  let ?us = "[(0 :: int, None :: string option, False), (0, None, False)]"
  have lv: "map pain_level (pain_trace ?us ?ps) = [59, 58]" by (rule relief_witness_run)
  have len: "length (pain_trace ?us ?ps) = 2" by simp
  have band: "\<forall>p \<in> set (pain_trace ?us ?ps). 40 \<le> pain_level p \<and> pain_level p \<le> 75"
  proof
    fix p assume "p \<in> set (pain_trace ?us ?ps)"
    then have "pain_level p \<in> set (map pain_level (pain_trace ?us ?ps))"
      by (simp only: set_map imageI)
    then show "40 \<le> pain_level p \<and> pain_level p \<le> 75" unfolding lv by auto
  qed
  have "\<forall>p \<in> set (pain_trace ?us ?ps). relief_mode p = relief_mode ?ps"
    using relief_mode_hysteresis [of 0 None False ?ps ?us] band by blast
  then have "\<forall>p \<in> set (pain_trace ?us ?ps). relief_mode p" by simp
  then have "map relief_mode (pain_trace ?us ?ps) = [True, True]" by simp
  with lv show ?thesis by simp
qed

section \<open>Grip and pain stay in range\<close>

lemma db_grip_range:
  "MATERIAL_DATABASE m = Some info \<Longrightarrow> 0 \<le> grip_strength info \<and> grip_strength info \<le> 100"
  by (auto simp: MATERIAL_DATABASE_def dict_literal_def split: if_splits)

lemma deque_append_set: "set (deque_append n xs x) \<subseteq> insert x (set xs)"
  using set_drop_subset [of "Suc (length xs) - n" "xs @ [x]"] by (auto simp: deque_append_def)

lemma deque_append_nonempty: "0 < n \<Longrightarrow> deque_append n xs x \<noteq> []"
  by (simp add: deque_append_def)

lemma calc_pain_range:
  "0 \<le> fst (calculate_pain_from_grip g m ps) \<and> fst (calculate_pain_from_grip g m ps) \<le> 100"
  by (simp add: calculate_pain_from_grip_def Let_def)

lemma calc_pain_history: "pain_history (snd (calculate_pain_from_grip g m ps)) = pain_history ps"
  by (simp add: calculate_pain_from_grip_def Let_def)

lemma update_pain_range:
  assumes h: "\<forall>x \<in> set (pain_history ps). 0 \<le> x \<and> x \<le> 100"
    and l: "0 \<le> pain_level ps \<and> pain_level ps \<le> 100"
  shows "(\<forall>x \<in> set (pain_history (update_pain_level g m ig ps)). 0 \<le> x \<and> x \<le> 100)
         \<and> 0 \<le> pain_level (update_pain_level g m ig ps)
         \<and> pain_level (update_pain_level g m ig ps) \<le> 100"
proof -
  define r where "r = (if ig then calculate_pain_from_grip g m ps
               else (max 0 (pain_level ps - 2),
                     ps\<lparr>strain_accumulation :=
                          py_max (d_int 0) (dsub (strain_accumulation ps) (ratio 5 10))\<rparr>))"
  define hh where "hh = deque_append 20 (pain_history (snd r)) (fst r)"
  have np: "0 \<le> fst r \<and> fst r \<le> 100"
    using l calc_pain_range [of g m ps] by (simp add: r_def)
  have ph: "pain_history (snd r) = pain_history ps"
    by (simp add: r_def calc_pain_history)
  have hs: "\<forall>x \<in> set hh. 0 \<le> x \<and> x \<le> 100"
    using deque_append_set [of 20 "pain_history ps" "fst r"] h np unfolding hh_def ph by blast
  have ne: "hh \<noteq> []" unfolding hh_def by (rule deque_append_nonempty) simp
  have m: "0 \<le> int_mean hh \<and> int_mean hh \<le> 100" using ne hs by (rule int_mean_bounds)
  have "pain_history (update_pain_level g m ig ps) = hh"
    by (simp add: update_pain_level_def Let_def r_def hh_def)
  moreover have "pain_level (update_pain_level g m ig ps) = int_mean hh"
    using ne by (simp add: update_pain_level_def Let_def r_def hh_def)
  ultimately show ?thesis using hs m by simp
qed

lemma grip_entries_range:
  assumes "\<forall>x \<in> set gh. x = 0 \<or> (\<exists>m info. MATERIAL_DATABASE m = Some info \<and> grip_strength info = x)"
  shows "\<forall>x \<in> set gh. 0 \<le> x \<and> x \<le> 100"
  using assms db_grip_range by fastforce

lemma session_ok_init: "session_ok (session_init audio)"
  by (simp add: session_ok_def session_init_def pain_init_def)

lemma session_ok_reset: "session_ok s \<Longrightarrow> session_ok (reset s)"
  by (simp add: session_ok_def reset_def)

lemma session_ok_pain:
  "session_ok s \<Longrightarrow> session_ok (s\<lparr>pain_system := update_pain_level g m ig (pain_system s)\<rparr>)"
  using update_pain_range [of "pain_system s" g m ig] by (simp add: session_ok_def)

lemma session_ok_weak: "session_ok s \<Longrightarrow> session_ok (weak_branch s)"
proof -
  assume ok: "session_ok s"
  have a: "session_ok (s\<lparr>pain_system := update_pain_level 0 None False (pain_system s)\<rparr>)"
    using ok by (rule session_ok_pain)
  show ?thesis using ok a by (simp add: weak_branch_def Let_def session_ok_def)
qed

lemma session_ok_no_detection: "session_ok s \<Longrightarrow> session_ok (no_detection_branch s)"
proof -
  assume ok: "session_ok s"
  have a: "session_ok (s\<lparr>pain_system := update_pain_level 0 None False (pain_system s)\<rparr>)"
    using ok by (rule session_ok_pain)
  have ne: "deque_append 15 (grip_history s) 0 \<noteq> []" by (rule deque_append_nonempty) simp
  have sub: "set (deque_append 15 (grip_history s) 0) \<subseteq> insert 0 (set (grip_history s))"
    by (rule deque_append_set)
  have g: "\<forall>x \<in> set (deque_append 15 (grip_history s) 0).
        x = 0 \<or> (\<exists>m info. MATERIAL_DATABASE m = Some info \<and> grip_strength info = x)"
    using ok sub unfolding session_ok_def by blast
  show ?thesis using ok a ne g by (simp add: no_detection_branch_def Let_def session_ok_def)
qed

lemma session_ok_accepted:
  assumes ok: "session_ok s" and st: "accepted_branch so inp raw conf s = Inr s'"
  shows "session_ok s'"
proof -
  define mh where "mh = deque_append 10 (material_history s) raw"
  obtain material where sm: "smooth_material so mh raw = Inr material"
    using st by (cases "smooth_material so mh raw") (simp_all add: accepted_branch_def Let_def mh_def)
  obtain info where db: "MATERIAL_DATABASE material = Some info"
    using st sm by (cases "MATERIAL_DATABASE material") (simp_all add: accepted_branch_def Let_def mh_def)
  define gh where "gh = deque_append 15 (grip_history s) (grip_strength info)"
  have ne: "gh \<noteq> []" unfolding gh_def by (rule deque_append_nonempty) simp
  have sub: "set gh \<subseteq> insert (grip_strength info) (set (grip_history s))"
    unfolding gh_def by (rule deque_append_set)
  have g: "\<forall>x \<in> set gh. x = 0 \<or> (\<exists>m info. MATERIAL_DATABASE m = Some info \<and> grip_strength info = x)"
    using ok sub db unfolding session_ok_def by blast
  have p: "(\<forall>x \<in> set (pain_history (update_pain_level (int_mean gh) (Some material) True (pain_system s))). 0 \<le> x \<and> x \<le> 100)
         \<and> 0 \<le> pain_level (update_pain_level (int_mean gh) (Some material) True (pain_system s))
         \<and> pain_level (update_pain_level (int_mean gh) (Some material) True (pain_system s)) \<le> 100"
    using ok by (intro update_pain_range) (simp_all add: session_ok_def)
  have ps: "pain_system s' = update_pain_level (int_mean gh) (Some material) True (pain_system s)"
    and gs: "grip_history s' = gh" and cg: "current_grip s' = int_mean gh"
    using st sm db by (auto simp: accepted_branch_def Let_def mh_def gh_def)
  show ?thesis unfolding session_ok_def ps gs cg using p g ne by simp
qed

lemma session_ok_cycle:
  assumes ok: "session_ok s" and st: "run_cycle so inp s = Inr s'"
  shows "session_ok s'"
proof (cases "detection inp")
  case None
  then show ?thesis using ok st session_ok_no_detection [of s] by (simp add: run_cycle_def)
next
  case (Some det)
  define bx where "bx = fst det"
  define box_area where "box_area = (fst (snd (snd bx)) - fst bx) * (snd (snd (snd bx)) - fst (snd bx))"
  obtain distance where ed: "estimate_distance box_area (frame_area inp) = Inr distance"
    using st Some by (cases "estimate_distance box_area (frame_area inp)")
      (simp_all add: run_cycle_def Let_def box_area_def bx_def)
  define s2 where "s2 = s\<lparr>detection_box := Some bx, current_object := Some (snd det),
      object_distance_cm := Some distance,
      haptic := (if distance \<le> 10 then proximity_alert distance (time_proximity inp) (haptic s)
                 else haptic s)\<rparr>"
  have ok2: "session_ok s2" using ok by (simp add: session_ok_def s2_def)
  define cm where "cm = classify_material (features inp) (Some (snd det))"
  have r: "run_cycle so inp s =
      (if accepted cm then accepted_branch so inp (the (fst cm)) (snd cm) s2 else Inr (weak_branch s2))"
    using Some ed by (simp add: run_cycle_def Let_def box_area_def bx_def s2_def cm_def)
  show ?thesis
  proof (cases "accepted cm")
    case True
    then have "accepted_branch so inp (the (fst cm)) (snd cm) s2 = Inr s'" using st r by simp
    then show ?thesis using ok2 session_ok_accepted by blast
  next
    case False
    then have "s' = weak_branch s2" using st r by simp
    then show ?thesis using ok2 session_ok_weak by simp
  qed
qed

lemma reachable_ok: "reachable so audio s \<Longrightarrow> session_ok s"
  by (induction rule: reachable.induct)
     (auto intro: session_ok_init session_ok_cycle session_ok_reset)

text \<open>The first detection cycle of a session that sees a wine glass.\<close>

lemma first_cycle:
  "run_cycle remdups (example_frame ''wine glass'' 100) (session_init True) =
     Inr state_after_wine_glass"
  unfolding state_after_wine_glass_def
  by (simp add: float_ev pain_ev cycle_ev example_frame_def cong: let_weak_cong)

text \<open>
  The range invariant. In every state the session can reach by detection cycles and
  resets, the applied grip and the reported pain level are integers in 0..100; every
  entry of the pain history lies in 0..100; every entry of the grip history is 0 or the
  base grip strength of a material of the table (all of which lie in 0..100); and the
  applied grip is the truncated mean of the grip history, or 0 while that is empty.
\<close>

theorem grip_and_pain_in_range:
  assumes "reachable set_order audio s"
  shows "0 \<le> current_grip s \<and> current_grip s \<le> 100
         \<and> 0 \<le> pain_level (pain_system s) \<and> pain_level (pain_system s) \<le> 100
         \<and> (\<forall>x \<in> set (pain_history (pain_system s)). 0 \<le> x \<and> x \<le> 100)
         \<and> (\<forall>x \<in> set (grip_history s).
               0 \<le> x \<and> x \<le> 100
               \<and> (x = 0 \<or> (\<exists>m info. MATERIAL_DATABASE m = Some info \<and> grip_strength info = x)))
         \<and> current_grip s = (if grip_history s = [] then 0 else int_mean (grip_history s))"
proof -
  have ok: "session_ok s" using assms by (rule reachable_ok)
  have g: "\<forall>x \<in> set (grip_history s).
             x = 0 \<or> (\<exists>m info. MATERIAL_DATABASE m = Some info \<and> grip_strength info = x)"
    using ok by (simp add: session_ok_def)
  have gr: "\<forall>x \<in> set (grip_history s). 0 \<le> x \<and> x \<le> 100"
    using g by (rule grip_entries_range)
  have cg: "current_grip s = (if grip_history s = [] then 0 else int_mean (grip_history s))"
    using ok by (simp add: session_ok_def)
  have "0 \<le> current_grip s \<and> current_grip s \<le> 100"
  proof (cases "grip_history s = []")
    case True
    then show ?thesis using cg by simp
  next
    case False
    then show ?thesis using cg int_mean_bounds [OF False gr] by simp
  qed
  then show ?thesis using ok g gr cg by (simp add: session_ok_def)
qed

theorem grip_and_pain_in_range_witness:
  "\<exists>s. run_cycle remdups (example_frame ''wine glass'' 100) (session_init True) = Inr s
       \<and> reachable remdups True s
       \<and> current_grip s = 85 \<and> pain_level (pain_system s) = 61
       \<and> 0 \<le> current_grip s \<and> current_grip s \<le> 100
       \<and> 0 \<le> pain_level (pain_system s) \<and> pain_level (pain_system s) \<le> 100"
proof -
  obtain s where s: "run_cycle remdups (example_frame ''wine glass'' 100) (session_init True) = Inr s"
    using first_cycle by blast
  have r: "reachable remdups True s"
    using reachable.cycle [OF reachable.start s] .
  have v: "current_grip s = 85 \<and> pain_level (pain_system s) = 61"
    using s unfolding first_cycle by (auto simp: state_after_wine_glass_def)
  show ?thesis using s r v grip_and_pain_in_range [OF r] by blast
qed

text \<open>
  C1. The ranges hold in every reachable state (the range invariant above), but the
  reported pain level is not in every reachable state a mean over the pain history: the
  reset command sets the level to 0 and keeps the history. After one cycle that saw a
  wine glass and a reset, the session is in a reachable state whose pain history is
  \<open>[61]\<close>, with truncated mean 61, while the reported level is 0.
\<close>

theorem level_is_not_history_mean_after_reset:
  "run_cycle remdups (example_frame ''wine glass'' 100) (session_init True)
     = Inr state_after_wine_glass
   \<and> reachable remdups True (reset state_after_wine_glass)
   \<and> pain_history (pain_system (reset state_after_wine_glass)) = [61]
   \<and> int_mean (pain_history (pain_system (reset state_after_wine_glass))) = 61
   \<and> pain_level (pain_system (reset state_after_wine_glass)) = 0
   \<and> pain_level (pain_system (reset state_after_wine_glass))
       \<noteq> int_mean (pain_history (pain_system (reset state_after_wine_glass)))"
proof -
  have r: "reachable remdups True (reset state_after_wine_glass)"
    by (rule reachable.reset, rule reachable.cycle, rule reachable.start, rule first_cycle)
  have h: "pain_history (pain_system (reset state_after_wine_glass)) = [61]"
    by (simp add: reset_def state_after_wine_glass_def)
  have m: "int_mean [61] = 61"
    by (simp add: float_ev cong: let_weak_cong)
  have l: "pain_level (pain_system (reset state_after_wine_glass)) = 0"
    by (simp add: reset_def state_after_wine_glass_def)
  show ?thesis unfolding h l m using first_cycle r by simp
qed

section \<open>Decay to reset\<close>

text \<open>
  The confidence after each of 18 cycles without a detection, starting at 1.0: the
  doubles Python computes by subtracting 0.05 again and again.
\<close>

lemma decay_steps:
  "confidence_decay (ratio 5 100) (Dbl 1 0) = Dbl 4278419646001971 (- 52)"
  "confidence_decay (ratio 5 100) (Dbl 4278419646001971 (- 52)) = Dbl 2026619832316723 (- 51)"
  "confidence_decay (ratio 5 100) (Dbl 2026619832316723 (- 51)) = Dbl 3828059683264921 (- 52)"
  "confidence_decay (ratio 5 100) (Dbl 3828059683264921 (- 52)) = Dbl 900719925474099 (- 50)"
  "confidence_decay (ratio 5 100) (Dbl 900719925474099 (- 50)) = Dbl 3377699720527871 (- 52)"
  "confidence_decay (ratio 5 100) (Dbl 3377699720527871 (- 52)) = Dbl 1576259869579673 (- 51)"
  "confidence_decay (ratio 5 100) (Dbl 1576259869579673 (- 51)) = Dbl 2927339757790821 (- 52)"
  "confidence_decay (ratio 5 100) (Dbl 2927339757790821 (- 52)) = Dbl 337769972052787 (- 49)"
  "confidence_decay (ratio 5 100) (Dbl 337769972052787 (- 49)) = Dbl 2476979795053771 (- 52)"
  "confidence_decay (ratio 5 100) (Dbl 2476979795053771 (- 52)) = Dbl 9007199254740985 (- 54)"
  "confidence_decay (ratio 5 100) (Dbl 9007199254740985 (- 54)) = Dbl 4053239664633443 (- 53)"
  "confidence_decay (ratio 5 100) (Dbl 4053239664633443 (- 53)) = Dbl 7205759403792787 (- 54)"
  "confidence_decay (ratio 5 100) (Dbl 7205759403792787 (- 54)) = Dbl 197032483697459 (- 49)"
  "confidence_decay (ratio 5 100) (Dbl 197032483697459 (- 49)) = Dbl 5404319552844589 (- 54)"
  "confidence_decay (ratio 5 100) (Dbl 5404319552844589 (- 54)) = Dbl 2251799813685245 (- 53)"
  "confidence_decay (ratio 5 100) (Dbl 2251799813685245 (- 53)) = Dbl 3602879701896391 (- 54)"
  "confidence_decay (ratio 5 100) (Dbl 3602879701896391 (- 54)) = Dbl 675539944105573 (- 52)"
  "confidence_decay (ratio 5 100) (Dbl 675539944105573 (- 52)) = Dbl 7205759403792771 (- 56)"
  by (simp_all add: float_ev lits confidence_decay_def cong: let_weak_cong)

lemma decay_iterates:
  "iter 0 (confidence_decay (ratio 5 100)) (Dbl 1 0) = Dbl 1 0"
  "iter 1 (confidence_decay (ratio 5 100)) (Dbl 1 0) = Dbl 4278419646001971 (- 52)"
  "iter 2 (confidence_decay (ratio 5 100)) (Dbl 1 0) = Dbl 2026619832316723 (- 51)"
  "iter 3 (confidence_decay (ratio 5 100)) (Dbl 1 0) = Dbl 3828059683264921 (- 52)"
  "iter 4 (confidence_decay (ratio 5 100)) (Dbl 1 0) = Dbl 900719925474099 (- 50)"
  "iter 5 (confidence_decay (ratio 5 100)) (Dbl 1 0) = Dbl 3377699720527871 (- 52)"
  "iter 6 (confidence_decay (ratio 5 100)) (Dbl 1 0) = Dbl 1576259869579673 (- 51)"
  "iter 7 (confidence_decay (ratio 5 100)) (Dbl 1 0) = Dbl 2927339757790821 (- 52)"
  "iter 8 (confidence_decay (ratio 5 100)) (Dbl 1 0) = Dbl 337769972052787 (- 49)"
  "iter 9 (confidence_decay (ratio 5 100)) (Dbl 1 0) = Dbl 2476979795053771 (- 52)"
  "iter 10 (confidence_decay (ratio 5 100)) (Dbl 1 0) = Dbl 9007199254740985 (- 54)"
  "iter 11 (confidence_decay (ratio 5 100)) (Dbl 1 0) = Dbl 4053239664633443 (- 53)"
  "iter 12 (confidence_decay (ratio 5 100)) (Dbl 1 0) = Dbl 7205759403792787 (- 54)"
  "iter 13 (confidence_decay (ratio 5 100)) (Dbl 1 0) = Dbl 197032483697459 (- 49)"
  "iter 14 (confidence_decay (ratio 5 100)) (Dbl 1 0) = Dbl 5404319552844589 (- 54)"
  "iter 15 (confidence_decay (ratio 5 100)) (Dbl 1 0) = Dbl 2251799813685245 (- 53)"
  "iter 16 (confidence_decay (ratio 5 100)) (Dbl 1 0) = Dbl 3602879701896391 (- 54)"
  "iter 17 (confidence_decay (ratio 5 100)) (Dbl 1 0) = Dbl 675539944105573 (- 52)"
  "iter 18 (confidence_decay (ratio 5 100)) (Dbl 1 0) = Dbl 7205759403792771 (- 56)"
  by (simp_all add: iter_numeral decay_steps)

lemma decay_above_floor:
  "\<not> dless (Dbl 1 0) (ratio 1 10)"
  "\<not> dless (Dbl 4278419646001971 (- 52)) (ratio 1 10)"
  "\<not> dless (Dbl 2026619832316723 (- 51)) (ratio 1 10)"
  "\<not> dless (Dbl 3828059683264921 (- 52)) (ratio 1 10)"
  "\<not> dless (Dbl 900719925474099 (- 50)) (ratio 1 10)"
  "\<not> dless (Dbl 3377699720527871 (- 52)) (ratio 1 10)"
  "\<not> dless (Dbl 1576259869579673 (- 51)) (ratio 1 10)"
  "\<not> dless (Dbl 2927339757790821 (- 52)) (ratio 1 10)"
  "\<not> dless (Dbl 337769972052787 (- 49)) (ratio 1 10)"
  "\<not> dless (Dbl 2476979795053771 (- 52)) (ratio 1 10)"
  "\<not> dless (Dbl 9007199254740985 (- 54)) (ratio 1 10)"
  "\<not> dless (Dbl 4053239664633443 (- 53)) (ratio 1 10)"
  "\<not> dless (Dbl 7205759403792787 (- 54)) (ratio 1 10)"
  "\<not> dless (Dbl 197032483697459 (- 49)) (ratio 1 10)"
  "\<not> dless (Dbl 5404319552844589 (- 54)) (ratio 1 10)"
  "\<not> dless (Dbl 2251799813685245 (- 53)) (ratio 1 10)"
  "\<not> dless (Dbl 3602879701896391 (- 54)) (ratio 1 10)"
  "\<not> dless (Dbl 675539944105573 (- 52)) (ratio 1 10)"
  by (simp_all add: lits)

lemma decay_below_floor: "dless (Dbl 7205759403792771 (- 56)) (ratio 1 10)"
  by (simp add: lits)

lemma decay_above_floor_upto:
  assumes "k \<le> 17"
  shows "\<not> dless (iter k (confidence_decay (ratio 5 100)) (Dbl 1 0)) (ratio 1 10)"
proof -
  have "k = 0 \<or> k = 1 \<or> k = 2 \<or> k = 3 \<or> k = 4 \<or> k = 5 \<or> k = 6 \<or> k = 7 \<or> k = 8 \<or> k = 9 \<or> k = 10 \<or> k = 11 \<or> k = 12 \<or> k = 13 \<or> k = 14 \<or> k = 15 \<or> k = 16 \<or> k = 17"
    using assms by arith
  then show ?thesis
    by (elim disjE) (simp_all only: decay_iterates decay_above_floor not_False_eq_True)
qed

lemma run_cycle_no_detection:
  "detection inp = None \<Longrightarrow> run_cycle so inp s = Inr (no_detection_branch s)"
  by (simp add: run_cycle_def)

lemma run_cycles_no_detection:
  "\<forall>i \<in> set inps. detection i = None
   \<Longrightarrow> run_cycles so inps s = Inr (iter (length inps) no_detection_branch s)"
  by (induction inps arbitrary: s) (simp_all add: run_cycle_no_detection)

lemma no_detection_above:
  "\<not> dless (confidence_decay (ratio 5 100) (confidence s)) (ratio 1 10)
   \<Longrightarrow> no_detection_branch s = s\<lparr>confidence := confidence_decay (ratio 5 100) (confidence s)\<rparr>"
  by (simp add: no_detection_branch_def Let_def)

lemma no_detection_below:
  "dless (confidence_decay (ratio 5 100) (confidence s)) (ratio 1 10)
   \<Longrightarrow> confidence (no_detection_branch s) = confidence_decay (ratio 5 100) (confidence s)
       \<and> current_material (no_detection_branch s) = None
       \<and> \<not> was_in_contact (no_detection_branch s)
       \<and> pain_system (no_detection_branch s) = update_pain_level 0 None False (pain_system s)"
  by (simp add: no_detection_branch_def Let_def)

lemma iter_Suc_right: "iter (Suc k) f x = f (iter k f x)"
  by (induction k arbitrary: x) simp_all

lemma stay_above:
  "(\<forall>j. 1 \<le> j \<and> j \<le> k \<longrightarrow> \<not> dless (iter j (confidence_decay (ratio 5 100)) (confidence s)) (ratio 1 10))
   \<Longrightarrow> iter k no_detection_branch s
       = s\<lparr>confidence := iter k (confidence_decay (ratio 5 100)) (confidence s)\<rparr>"
proof (induction k)
  case 0
  show ?case by simp
next
  case (Suc k)
  let ?D = "confidence_decay (ratio 5 100)"
  have ih: "iter k no_detection_branch s = s\<lparr>confidence := iter k ?D (confidence s)\<rparr>"
    using Suc by simp
  have "\<not> dless (iter (Suc k) ?D (confidence s)) (ratio 1 10)"
    using Suc.prems [THEN spec, of "Suc k"] by (simp del: iter.simps)
  then have ab: "\<not> dless (?D (iter k ?D (confidence s))) (ratio 1 10)"
    unfolding iter_Suc_right .
  have "iter (Suc k) no_detection_branch s = no_detection_branch (iter k no_detection_branch s)"
    by (rule iter_Suc_right)
  also have "\<dots> = no_detection_branch (s\<lparr>confidence := iter k ?D (confidence s)\<rparr>)"
    by (simp only: ih)
  also have "\<dots> = s\<lparr>confidence := ?D (iter k ?D (confidence s))\<rparr>"
    using ab by (simp add: no_detection_above)
  finally show ?case by (simp only: iter_Suc_right)
qed

lemma decay_prefix:
  assumes c: "confidence s = Dbl 1 0" and k: "k \<le> 17"
  shows "iter k no_detection_branch s
         = s\<lparr>confidence := iter k (confidence_decay (ratio 5 100)) (Dbl 1 0)\<rparr>"
proof -
  have "\<forall>j. 1 \<le> j \<and> j \<le> k
          \<longrightarrow> \<not> dless (iter j (confidence_decay (ratio 5 100)) (confidence s)) (ratio 1 10)"
    using k decay_above_floor_upto unfolding c by simp
  then show ?thesis using stay_above [of k s] unfolding c by simp
qed

text \<open>
  C4. From confidence 1.0, the number of no-detection cycles needed to bring the
  confidence below the floor 0.1 is 18 (the 18 subtractions of 0.05 leave
  0.09999999999999969). After these 18 cycles the current material is none, the contact
  flag is off and the pain model has been updated once, with is-gripping false. After any
  smaller number of such cycles the confidence is still at or above the floor and the
  material, the contact flag and the pain state are untouched.
\<close>

theorem decay_to_reset:
  assumes c: "confidence s = d_int 1" and len: "length inps = 18"
    and nd: "\<forall>i \<in> set inps. detection i = None"
  shows "(\<exists>s'. run_cycles set_order inps s = Inr s'
            \<and> current_material s' = None \<and> \<not> was_in_contact s'
            \<and> pain_system s' = update_pain_level 0 None False (pain_system s)
            \<and> dless (confidence s') (ratio 1 10))
         \<and> (\<forall>k < 18. \<exists>s''. run_cycles set_order (take k inps) s = Inr s''
               \<and> \<not> dless (confidence s'') (ratio 1 10)
               \<and> current_material s'' = current_material s
               \<and> was_in_contact s'' = was_in_contact s
               \<and> pain_system s'' = pain_system s)"
proof -
  let ?D = "confidence_decay (ratio 5 100)"
  have c1: "confidence s = Dbl 1 0" using c by (simp add: lits)
  have r18: "run_cycles set_order inps s = Inr (iter 18 no_detection_branch s)"
    using run_cycles_no_detection [OF nd, of set_order s] len by simp
  have s17: "iter 17 no_detection_branch s = s\<lparr>confidence := iter 17 ?D (Dbl 1 0)\<rparr>"
    using decay_prefix [OF c1, of 17] by simp
  have "iter 18 no_detection_branch s = no_detection_branch (iter 17 no_detection_branch s)"
    using iter_Suc_right [of 17 no_detection_branch s] by simp
  then have s18: "iter 18 no_detection_branch s
      = no_detection_branch (s\<lparr>confidence := Dbl 675539944105573 (- 52)\<rparr>)"
    by (simp only: s17 decay_iterates)
  have below: "dless (?D (confidence (s\<lparr>confidence := Dbl 675539944105573 (- 52)\<rparr>))) (ratio 1 10)"
    by (simp add: decay_steps decay_below_floor)
  have first: "\<exists>s'. run_cycles set_order inps s = Inr s'
            \<and> current_material s' = None \<and> \<not> was_in_contact s'
            \<and> pain_system s' = update_pain_level 0 None False (pain_system s)
            \<and> dless (confidence s') (ratio 1 10)"
    using no_detection_below [OF below] below unfolding r18 s18 by simp
  have second: "\<forall>k < 18. \<exists>s''. run_cycles set_order (take k inps) s = Inr s''
               \<and> \<not> dless (confidence s'') (ratio 1 10)
               \<and> current_material s'' = current_material s
               \<and> was_in_contact s'' = was_in_contact s
               \<and> pain_system s'' = pain_system s"
  proof (intro allI impI)
    fix k :: nat assume k: "k < 18"
    have nd': "\<forall>i \<in> set (take k inps). detection i = None"
      using nd by (meson in_set_takeD)
    have lk: "length (take k inps) = k" using k len by simp
    have "run_cycles set_order (take k inps) s = Inr (iter k no_detection_branch s)"
      using run_cycles_no_detection [OF nd', of set_order s] lk by simp
    moreover have "iter k no_detection_branch s = s\<lparr>confidence := iter k ?D (Dbl 1 0)\<rparr>"
      using decay_prefix [OF c1, of k] k by simp
    moreover have "\<not> dless (iter k ?D (Dbl 1 0)) (ratio 1 10)"
      using decay_above_floor_upto [of k] k by simp
    ultimately show "\<exists>s''. run_cycles set_order (take k inps) s = Inr s''
               \<and> \<not> dless (confidence s'') (ratio 1 10)
               \<and> current_material s'' = current_material s
               \<and> was_in_contact s'' = was_in_contact s
               \<and> pain_system s'' = pain_system s"
      by simp
  qed
  show ?thesis using first second by blast
qed

theorem decay_to_reset_witness:
  "\<exists>s'. run_cycles remdups (replicate 18 (empty_frame 0))
           ((session_init True)\<lparr>confidence := d_int 1, current_material := Some ''glass'',
                                 was_in_contact := True\<rparr>) = Inr s'
        \<and> current_material s' = None \<and> \<not> was_in_contact s'
        \<and> dless (confidence s') (ratio 1 10)"
proof -
  let ?s = "(session_init True)\<lparr>confidence := d_int 1, current_material := Some ''glass'',
                                 was_in_contact := True\<rparr>"
  have c: "confidence ?s = d_int 1" by simp
  have len: "length (replicate 18 (empty_frame 0)) = 18" by simp
  have nd: "\<forall>i \<in> set (replicate 18 (empty_frame 0)). detection i = None"
    by (simp add: empty_frame_def)
  show ?thesis using decay_to_reset [OF c len nd, of remdups] by blast
qed

section \<open>Reset\<close>

text \<open>
  C8. The reset command does not bring everything back to the initial values: it leaves
  the pain history, the relief-mode flag and the contact flag as they are. After one
  cycle that saw a wine glass, a reset keeps the pain history \<open>[61]\<close> and the contact
  flag on, where the initial state has an empty pain history and the flag off.
\<close>

theorem reset_is_incomplete:
  "pain_history (pain_system (reset s)) = pain_history (pain_system s)
   \<and> relief_mode (pain_system (reset s)) = relief_mode (pain_system s)
   \<and> was_in_contact (reset s) = was_in_contact s
   \<and> run_cycle remdups (example_frame ''wine glass'' 100) (session_init True)
       = Inr state_after_wine_glass
   \<and> pain_history (pain_system (reset state_after_wine_glass)) = [61]
   \<and> pain_history (pain_system (session_init True)) = []
   \<and> was_in_contact (reset state_after_wine_glass) = True
   \<and> was_in_contact (session_init True) = False
   \<and> reset state_after_wine_glass \<noteq> session_init True"
proof -
  have a: "pain_history (pain_system (reset state_after_wine_glass)) = [61]"
    by (simp add: reset_def state_after_wine_glass_def)
  have b: "pain_history (pain_system (session_init True)) = []"
    by (simp add: session_init_def pain_init_def)
  have "reset state_after_wine_glass \<noteq> session_init True"
  proof
    assume "reset state_after_wine_glass = session_init True"
    then have "pain_history (pain_system (reset state_after_wine_glass))
               = pain_history (pain_system (session_init True))" by simp
    then show False unfolding a b by simp
  qed
  then show ?thesis using a b first_cycle
    by (simp add: reset_def session_init_def state_after_wine_glass_def)
qed

section \<open>When the pain state is updated\<close>

lemma second_cycle_empty:
  "run_cycles remdups [example_frame ''wine glass'' 100, empty_frame 101] (session_init True)
   = Inr (state_after_wine_glass\<lparr>confidence := Dbl 7205759403792793 (- 53)\<rparr>)"
proof -
  have "confidence_decay (ratio 5 100) (confidence state_after_wine_glass)
        = Dbl 7205759403792793 (- 53)"
    by (simp add: state_after_wine_glass_def float_ev lits confidence_decay_def
          cong: let_weak_cong)
  moreover have "\<not> dless (Dbl 7205759403792793 (- 53)) (ratio 1 10)" by (simp add: lits)
  ultimately have "no_detection_branch state_after_wine_glass
        = state_after_wine_glass\<lparr>confidence := Dbl 7205759403792793 (- 53)\<rparr>"
    using no_detection_above [of state_after_wine_glass] by simp
  then show ?thesis
    by (simp add: first_cycle run_cycle_no_detection empty_frame_def)
qed

text \<open>
  C6, as stated, fails: after a cycle that saw a wine glass (pain level 61, strain
  0.425), a cycle without detection lowers the confidence from 0.85 to
  0.7999999999999999, which is not below the floor, and leaves the pain state exactly as
  it was: no decay of pain or strain.
\<close>

theorem pain_untouched_counterexample:
  "\<not> isl (run_cycles remdups [example_frame ''wine glass'' 100, empty_frame 101]
              (session_init True))
   \<and> pain_system (projr (run_cycles remdups [example_frame ''wine glass'' 100, empty_frame 101]
                            (session_init True)))
       = pain_system (projr (run_cycles remdups [example_frame ''wine glass'' 100]
                                (session_init True)))
   \<and> pain_system (projr (run_cycles remdups [example_frame ''wine glass'' 100, empty_frame 101]
                            (session_init True)))
       = \<lparr>pain_level = 61, pain_history = [61],
          strain_accumulation = Dbl 7656119366529843 (- 54), relief_mode = False\<rparr>"
  unfolding second_cycle_empty
  by (simp add: first_cycle) (simp add: state_after_wine_glass_def)

lemma run_cycle_detected:
  assumes det: "detection inp = Some (bx, obj)" and st: "run_cycle so inp s = Inr s'"
  shows "\<exists>d. (if accepted (classify_material (features inp) (Some obj))
              then accepted_branch so inp (the (fst (classify_material (features inp) (Some obj))))
                     (snd (classify_material (features inp) (Some obj)))
                     (s\<lparr>detection_box := Some bx, current_object := Some obj,
                        object_distance_cm := Some d,
                        haptic := (if d \<le> 10 then proximity_alert d (time_proximity inp) (haptic s)
                                   else haptic s)\<rparr>) = Inr s'
              else s' = weak_branch
                     (s\<lparr>detection_box := Some bx, current_object := Some obj,
                        object_distance_cm := Some d,
                        haptic := (if d \<le> 10 then proximity_alert d (time_proximity inp) (haptic s)
                                   else haptic s)\<rparr>))"
proof -
  define box_area where
    "box_area = (fst (snd (snd bx)) - fst bx) * (snd (snd (snd bx)) - fst (snd bx))"
  obtain d where ed: "estimate_distance box_area (frame_area inp) = Inr d"
    using st det by (cases "estimate_distance box_area (frame_area inp)")
      (simp_all add: run_cycle_def Let_def box_area_def)
  show ?thesis
    using st det ed
    by (intro exI [of _ d])
       (auto simp: run_cycle_def Let_def box_area_def split: if_splits cong del: if_weak_cong)
qed

lemma accepted_branch_pain:
  assumes "accepted_branch so inp raw conf s = Inr s'"
  shows "pain_system s' = update_pain_level (current_grip s') (current_material s') True (pain_system s)"
proof -
  define mh where "mh = deque_append 10 (material_history s) raw"
  obtain material where sm: "smooth_material so mh raw = Inr material"
    using assms by (cases "smooth_material so mh raw") (simp_all add: accepted_branch_def Let_def mh_def)
  obtain info where db: "MATERIAL_DATABASE material = Some info"
    using assms sm by (cases "MATERIAL_DATABASE material") (simp_all add: accepted_branch_def Let_def mh_def)
  show ?thesis using assms sm db by (auto simp: accepted_branch_def Let_def mh_def)
qed

lemma update_not_gripping:
  "pain_history (update_pain_level g m False ps)
     = deque_append 20 (pain_history ps) (max 0 (pain_level ps - 2))
   \<and> strain_accumulation (update_pain_level g m False ps)
     = py_max (d_int 0) (dsub (strain_accumulation ps) (ratio 5 10))
   \<and> pain_level (update_pain_level g m False ps)
     = int_mean (pain_history (update_pain_level g m False ps))"
  using deque_append_nonempty [of 20 "pain_history ps" "max 0 (pain_level ps - 2)"]
  by (simp add: update_pain_level_def Let_def)

text \<open>
  C6, amended. A detection cycle updates the pain state only when a grip is accepted
  (update with is-gripping true, the applied grip and the smoothed material) or when the
  decayed confidence has fallen below the floor, 0.1 without a detection and 0.2 after a
  detection that is not accepted (update with is-gripping false); in every other cycle
  the pain state is unchanged. An update without grip appends the sample
  \<open>max(0, level - 2)\<close> to the pain history, reports the truncated mean of the history,
  and lowers the strain by 0.5, not below 0.
\<close>

theorem pain_update_when:
  assumes st: "run_cycle set_order inp s = Inr s'"
  shows "(detection inp = None \<longrightarrow>
            pain_system s' = (if dless (confidence s') (ratio 1 10)
                              then update_pain_level 0 None False (pain_system s)
                              else pain_system s))
       \<and> (\<forall>bx obj. detection inp = Some (bx, obj)
                    \<and> \<not> accepted (classify_material (features inp) (Some obj)) \<longrightarrow>
            pain_system s' = (if dless (confidence s') (ratio 2 10)
                              then update_pain_level 0 None False (pain_system s)
                              else pain_system s))
       \<and> (\<forall>bx obj. detection inp = Some (bx, obj)
                    \<and> accepted (classify_material (features inp) (Some obj)) \<longrightarrow>
            pain_system s' = update_pain_level (current_grip s') (current_material s') True
                               (pain_system s))
       \<and> pain_history (update_pain_level g m False ps)
           = deque_append 20 (pain_history ps) (max 0 (pain_level ps - 2))
       \<and> strain_accumulation (update_pain_level g m False ps)
           = py_max (d_int 0) (dsub (strain_accumulation ps) (ratio 5 10))
       \<and> pain_level (update_pain_level g m False ps)
           = int_mean (pain_history (update_pain_level g m False ps))"
proof -
  have a: "detection inp = None \<longrightarrow>
            pain_system s' = (if dless (confidence s') (ratio 1 10)
                              then update_pain_level 0 None False (pain_system s)
                              else pain_system s)"
  proof
    assume "detection inp = None"
    then have "s' = no_detection_branch s" using st by (simp add: run_cycle_no_detection)
    then show "pain_system s' = (if dless (confidence s') (ratio 1 10)
                              then update_pain_level 0 None False (pain_system s)
                              else pain_system s)"
      by (simp add: no_detection_branch_def Let_def)
  qed
  have b: "\<forall>bx obj. detection inp = Some (bx, obj)
                    \<and> \<not> accepted (classify_material (features inp) (Some obj)) \<longrightarrow>
            pain_system s' = (if dless (confidence s') (ratio 2 10)
                              then update_pain_level 0 None False (pain_system s)
                              else pain_system s)"
  proof (intro allI impI)
    fix bx obj
    assume h: "detection inp = Some (bx, obj)
                    \<and> \<not> accepted (classify_material (features inp) (Some obj))"
    then obtain d where "s' = weak_branch
                     (s\<lparr>detection_box := Some bx, current_object := Some obj,
                        object_distance_cm := Some d,
                        haptic := (if d \<le> 10 then proximity_alert d (time_proximity inp) (haptic s)
                                   else haptic s)\<rparr>)"
      using run_cycle_detected [OF _ st, of bx obj] by auto
    then show "pain_system s' = (if dless (confidence s') (ratio 2 10)
                              then update_pain_level 0 None False (pain_system s)
                              else pain_system s)"
      by (simp add: weak_branch_def Let_def)
  qed
  have c: "\<forall>bx obj. detection inp = Some (bx, obj)
                    \<and> accepted (classify_material (features inp) (Some obj)) \<longrightarrow>
            pain_system s' = update_pain_level (current_grip s') (current_material s') True
                               (pain_system s)"
  proof (intro allI impI)
    fix bx obj
    assume h: "detection inp = Some (bx, obj)
                    \<and> accepted (classify_material (features inp) (Some obj))"
    then obtain d where "accepted_branch set_order inp (the (fst (classify_material (features inp) (Some obj))))
                     (snd (classify_material (features inp) (Some obj)))
                     (s\<lparr>detection_box := Some bx, current_object := Some obj,
                        object_distance_cm := Some d,
                        haptic := (if d \<le> 10 then proximity_alert d (time_proximity inp) (haptic s)
                                   else haptic s)\<rparr>) = Inr s'"
      using run_cycle_detected [OF _ st, of bx obj] by auto
    from accepted_branch_pain [OF this]
    show "pain_system s' = update_pain_level (current_grip s') (current_material s') True
                               (pain_system s)" by simp
  qed
  show ?thesis using a b c update_not_gripping [of g m ps] by blast
qed

lemma below_floor_cycle:
  "run_cycle remdups (empty_frame 101) (state_after_wine_glass\<lparr>confidence := ratio 1 10\<rparr>)
   = Inr (no_detection_branch (state_after_wine_glass\<lparr>confidence := ratio 1 10\<rparr>))"
  by (simp add: run_cycle_no_detection empty_frame_def)

lemma below_floor_confidence:
  "dless (confidence (no_detection_branch (state_after_wine_glass\<lparr>confidence := ratio 1 10\<rparr>)))
     (ratio 1 10)"
  by (simp add: no_detection_branch_def confidence_decay_def float_ev lits
        cong: let_weak_cong)

lemma below_floor_update:
  "update_pain_level 0 None False (pain_system state_after_wine_glass)
   = \<lparr>pain_level = 60, pain_history = [61, 59], strain_accumulation = Dbl 0 0,
      relief_mode = False\<rparr>"
  by (simp add: state_after_wine_glass_def float_ev pain_ev cong: let_weak_cong)

theorem pain_update_when_witness:
  "pain_system (projr (run_cycle remdups (empty_frame 101)
                         (state_after_wine_glass\<lparr>confidence := ratio 1 10\<rparr>)))
   = \<lparr>pain_level = 60, pain_history = [61, 59], strain_accumulation = Dbl 0 0,
      relief_mode = False\<rparr>"
proof -
  let ?s = "state_after_wine_glass\<lparr>confidence := ratio 1 10\<rparr>"
  have d: "detection (empty_frame 101) = None" by (simp add: empty_frame_def)
  have "pain_system (no_detection_branch ?s)
        = (if dless (confidence (no_detection_branch ?s)) (ratio 1 10)
           then update_pain_level 0 None False (pain_system ?s) else pain_system ?s)"
    using pain_update_when [OF below_floor_cycle] d by blast
  then have "pain_system (no_detection_branch ?s)
             = update_pain_level 0 None False (pain_system state_after_wine_glass)"
    using below_floor_confidence by simp
  then show ?thesis unfolding below_floor_cycle below_floor_update by simp
qed

section \<open>Material smoothing\<close>

lemma four_glasses:
  "run_cycles remdups [example_frame ''wine glass'' 101, example_frame ''wine glass'' 102,
                       example_frame ''wine glass'' 103] state_after_wine_glass
   = Inr state_after_four_glasses"
  unfolding state_after_four_glasses_def
  by (simp add: float_ev pain_ev cycle_ev example_frame_def state_after_wine_glass_def
        cong: let_weak_cong)

lemma fifth_cycle:
  "map_sum id (\<lambda>s. (current_material s, material_history s))
     (run_cycle remdups (example_frame ''knife'' 104) state_after_four_glasses)
   = Inr (Some ''glass'', [''glass'', ''glass'', ''glass'', ''glass'', ''metal''])"
  by (simp add: float_ev pain_ev cycle_ev example_frame_def state_after_four_glasses_def
        cong: let_weak_cong)

lemma knife_is_metal:
  "classify_material (features (example_frame ''knife'' 104)) (Some ''knife'')
   = (Some ''metal'', ratio 85 100)"
  by (simp add: classify_material_def truthy_def obj_lookup example_frame_def)

lemma metal_accepted: "accepted (Some ''metal'', ratio 85 100)"
  by (simp add: accepted_def truthy_def lits)

lemma fifth_cycle_state:
  "run_cycle remdups (example_frame ''knife'' 104) state_after_four_glasses
   = Inr (projr (run_cycle remdups (example_frame ''knife'' 104) state_after_four_glasses))
   \<and> current_material (projr (run_cycle remdups (example_frame ''knife'' 104)
                                 state_after_four_glasses)) = Some ''glass''
   \<and> material_history (projr (run_cycle remdups (example_frame ''knife'' 104)
                                 state_after_four_glasses))
       = [''glass'', ''glass'', ''glass'', ''glass'', ''metal'']"
  using fifth_cycle
  by (cases "run_cycle remdups (example_frame ''knife'' 104) state_after_four_glasses") simp_all

text \<open>
  C5, as stated, fails: the window holds up to 10 materials, and the mode is emitted
  long before it is full. After four cycles that saw a wine glass the history holds four
  times glass; a fifth cycle sees a knife, classified as metal with confidence 0.85 and
  accepted. The history then holds 5 of 10 entries, and the material emitted is glass,
  the mode, not the raw value metal.
\<close>

theorem mode_before_window_full_counterexample:
  "run_cycles remdups [example_frame ''wine glass'' 100, example_frame ''wine glass'' 101,
                       example_frame ''wine glass'' 102, example_frame ''wine glass'' 103]
     (session_init True) = Inr state_after_four_glasses
   \<and> classify_material (features (example_frame ''knife'' 104)) (Some ''knife'')
       = (Some ''metal'', ratio 85 100)
   \<and> accepted (Some ''metal'', ratio 85 100)
   \<and> \<not> isl (run_cycle remdups (example_frame ''knife'' 104) state_after_four_glasses)
   \<and> material_history (projr (run_cycle remdups (example_frame ''knife'' 104)
                                 state_after_four_glasses))
       = [''glass'', ''glass'', ''glass'', ''glass'', ''metal'']
   \<and> length (material_history (projr (run_cycle remdups (example_frame ''knife'' 104)
                                         state_after_four_glasses))) < 10
   \<and> current_material (projr (run_cycle remdups (example_frame ''knife'' 104)
                                 state_after_four_glasses)) = Some ''glass''
   \<and> current_material (projr (run_cycle remdups (example_frame ''knife'' 104)
                                 state_after_four_glasses)) \<noteq> Some ''metal''"
proof -
  have r4: "run_cycles remdups [example_frame ''wine glass'' 100, example_frame ''wine glass'' 101,
                       example_frame ''wine glass'' 102, example_frame ''wine glass'' 103]
     (session_init True) = Inr state_after_four_glasses"
    using four_glasses by (simp add: first_cycle)
  have ns: "\<not> isl (run_cycle remdups (example_frame ''knife'' 104) state_after_four_glasses)"
    using fifth_cycle_state by (metis sum.disc(2))
  show ?thesis using r4 ns knife_is_metal metal_accepted fifth_cycle_state by simp
qed

lemma py_max_from_member: "py_max_from lt key b xs \<in> set (b # xs)"
  by (induction xs arbitrary: b) auto

lemma py_max_from_greatest:
  fixes key :: "'a \<Rightarrow> nat"
  shows "\<forall>y \<in> set (b # xs). key y \<le> key (py_max_from (<) key b xs)"
proof (induction xs arbitrary: b)
  case Nil
  show ?case by simp
next
  case (Cons x xs)
  let ?b = "if key b < key x then x else b"
  have ih: "\<forall>y \<in> set (?b # xs). key y \<le> key (py_max_from (<) key ?b xs)" by (rule Cons.IH)
  have r: "py_max_from (<) key b (x # xs) = py_max_from (<) key ?b xs" by simp
  have b1: "key b \<le> key ?b" and x1: "key x \<le> key ?b" by simp_all
  have top: "key ?b \<le> key (py_max_from (<) key ?b xs)" using ih by simp
  show ?case unfolding r using ih b1 x1 top by (auto simp del: py_max_from.simps intro: order_trans)
qed

lemma smooth_material_result:
  assumes sm: "smooth_material so h raw = Inr m" and ord: "set (so h) = set h"
  shows "(length h < 5 \<longrightarrow> m = raw)
       \<and> (5 \<le> length h \<longrightarrow> m \<in> set h \<and> (\<forall>x. count_list h x \<le> count_list h m))"
proof (cases "5 \<le> length h")
  case False
  then show ?thesis using sm by (simp add: smooth_material_def)
next
  case True
  then obtain x rest where xs: "so h = x # rest" and m: "m = py_max_from (<) (count_list h) x rest"
    using sm by (cases "so h") (simp_all add: smooth_material_def py_max_key_def)
  have "m \<in> set (so h)"
    unfolding xs m by (rule py_max_from_member)
  then have mem: "m \<in> set h" unfolding ord .
  have "\<forall>y \<in> set (so h). count_list h y \<le> count_list h m"
    unfolding xs m by (rule py_max_from_greatest)
  then have gr: "\<forall>y \<in> set h. count_list h y \<le> count_list h m" unfolding ord .
  have "\<forall>y. count_list h y \<le> count_list h m"
  proof
    fix y show "count_list h y \<le> count_list h m"
    proof (cases "y \<in> set h")
      case True then show ?thesis using gr by simp
    next
      case False then show ?thesis by (simp add: count_list_0_iff)
    qed
  qed
  then show ?thesis using True mem by simp
qed

lemma accepted_branch_material:
  assumes "accepted_branch so inp raw conf s = Inr s'"
  shows "material_history s' = deque_append 10 (material_history s) raw
       \<and> (\<exists>m. smooth_material so (deque_append 10 (material_history s) raw) raw = Inr m
              \<and> current_material s' = Some m)"
proof -
  define mh where "mh = deque_append 10 (material_history s) raw"
  obtain material where sm: "smooth_material so mh raw = Inr material"
    using assms by (cases "smooth_material so mh raw") (simp_all add: accepted_branch_def Let_def mh_def)
  obtain info where db: "MATERIAL_DATABASE material = Some info"
    using assms sm by (cases "MATERIAL_DATABASE material") (simp_all add: accepted_branch_def Let_def mh_def)
  show ?thesis using assms sm db by (auto simp: accepted_branch_def Let_def mh_def)
qed

lemma deque_append_length: "length (deque_append n xs x) \<le> n"
  by (simp add: deque_append_def)

text \<open>
  C5, amended. A cycle that accepts the raw material \<open>raw\<close> appends it to the material
  history, which keeps the last 10 entries. While the history, the new entry included,
  holds fewer than 5 entries, the raw material is emitted unchanged; once it holds 5 or
  more, the material emitted is an entry of the history that no other value outnumbers
  (a mode of the history). The order in which Python iterates over the set of the
  history is a parameter; it only has to list the elements of the history.
\<close>

theorem material_smoothing:
  assumes st: "run_cycle set_order inp s = Inr s'"
    and det: "detection inp = Some (bx, obj)"
    and cm: "classify_material (features inp) (Some obj) = (Some raw, conf)"
    and acc: "accepted (Some raw, conf)"
    and ord: "set (set_order (deque_append 10 (material_history s) raw))
              = set (deque_append 10 (material_history s) raw)"
  shows "material_history s' = deque_append 10 (material_history s) raw
       \<and> length (material_history s') \<le> 10
       \<and> (length (material_history s') < 5 \<longrightarrow> current_material s' = Some raw)
       \<and> (5 \<le> length (material_history s') \<longrightarrow>
            (\<exists>m. current_material s' = Some m \<and> m \<in> set (material_history s')
                 \<and> (\<forall>x. count_list (material_history s') x \<le> count_list (material_history s') m)))"
proof -
  obtain d where "accepted_branch set_order inp raw conf
                     (s\<lparr>detection_box := Some bx, current_object := Some obj,
                        object_distance_cm := Some d,
                        haptic := (if d \<le> 10 then proximity_alert d (time_proximity inp) (haptic s)
                                   else haptic s)\<rparr>) = Inr s'"
    using run_cycle_detected [OF det st] acc unfolding cm by auto
  from accepted_branch_material [OF this]
  obtain m where mh: "material_history s' = deque_append 10 (material_history s) raw"
    and sm: "smooth_material set_order (deque_append 10 (material_history s) raw) raw = Inr m"
    and cur: "current_material s' = Some m" by auto
  show ?thesis
    using smooth_material_result [OF sm ord] mh cur
      deque_append_length [of 10 "material_history s" raw] by auto
qed

theorem material_smoothing_witness:
  "material_history (projr (run_cycle remdups (example_frame ''knife'' 104)
                              state_after_four_glasses))
     = deque_append 10 (material_history state_after_four_glasses) ''metal''
   \<and> length (material_history (projr (run_cycle remdups (example_frame ''knife'' 104)
                                        state_after_four_glasses))) = 5
   \<and> (\<exists>m. current_material (projr (run_cycle remdups (example_frame ''knife'' 104)
                                       state_after_four_glasses)) = Some m
          \<and> count_list (material_history (projr (run_cycle remdups (example_frame ''knife'' 104)
                                       state_after_four_glasses))) ''glass''
              \<le> count_list (material_history (projr (run_cycle remdups (example_frame ''knife'' 104)
                                       state_after_four_glasses))) m)"
proof -
  let ?s' = "projr (run_cycle remdups (example_frame ''knife'' 104) state_after_four_glasses)"
  have st: "run_cycle remdups (example_frame ''knife'' 104) state_after_four_glasses = Inr ?s'"
    using fifth_cycle_state by simp
  have det: "detection (example_frame ''knife'' 104) = Some ((500, 200, 780, 520), ''knife'')"
    by (simp add: example_frame_def)
  have ord: "set (remdups (deque_append 10 (material_history state_after_four_glasses) ''metal''))
             = set (deque_append 10 (material_history state_after_four_glasses) ''metal'')"
    by (rule set_remdups)
  have len: "length (material_history ?s') = 5" using fifth_cycle_state by simp
  show ?thesis
    using material_smoothing [OF st det knife_is_metal metal_accepted ord] len by auto
qed

section \<open>Pain alerts\<close>





lemma pain_sounds_beep:
  "pain_sounds (generate_beep src f d v dl h)
   = pain_sounds h @ (if audio_enabled h \<and> src = Pain_alert then [Sound src f d v dl] else [])"
  by (simp add: generate_beep_def pain_sounds_def)

lemma audio_beep: "audio_enabled (generate_beep src f d v dl h) = audio_enabled h"
  by (simp add: generate_beep_def)








section \<open>Strain under a sustained grip\<close>

lemma trace_numeral: "trace (numeral k) f x = x # trace (pred_numeral k) f (f x)"
  by (simp add: numeral_eq_Suc)

lemma scenario_lits:
  "ratio 90 100 = Dbl 8106479329266893 (- 53)"
  "material_pain_factor (Some ''metal'') = Dbl 3152519739159347 (- 52)"
  by (simp_all add: float_ev material_pain_factor_def db_lookup cong: let_weak_cong)

lemma pain_trace_63:
  "map (\<lambda>s. (pain_level s, relief_mode s)) (trace 63 grip_metal_90 pain_init) =
     [(0, False), (52, False), (52, False), (52, False), (53, False), (53, False),
      (53, False), (53, False), (54, False), (54, False), (54, False), (54, False),
      (54, False), (55, False), (55, False), (55, False), (55, False), (56, False),
      (56, False), (56, False), (56, False), (57, False), (57, False), (58, False),
      (58, False), (59, False), (59, False), (59, False), (60, False), (60, False),
      (61, False), (61, False), (62, False), (62, False), (63, False), (63, False),
      (63, False), (64, False), (64, False), (65, False), (65, False), (66, False),
      (66, False), (67, False), (67, False), (68, False), (68, False), (68, False),
      (69, False), (69, False), (70, False), (70, False), (71, False), (71, False),
      (72, False), (72, False), (72, False), (73, False), (73, False), (74, False),
      (74, False), (75, False), (75, False), (76, True)]"
  by (simp add: trace_numeral grip_metal_90_def scenario_lits float_ev lits
        deque_append_def pain_init_def calculate_pain_from_grip_def update_pain_level_def
        cong: let_weak_cong)

lemma length_trace: "length (trace n f x) = Suc n"
  by (induction n arbitrary: x) simp_all

lemma trace_nth: "k \<le> n \<Longrightarrow> trace n f x ! k = iter k f x"
proof (induction n arbitrary: x k)
  case 0
  then show ?case by simp
next
  case (Suc n)
  show ?case
  proof (cases k)
    case 0
    then show ?thesis by simp
  next
    case (Suc j)
    then have "j \<le> n" using Suc.prems by simp
    then show ?thesis using Suc.IH [of j "f x"] Suc by simp
  qed
qed

lemma take_trace: "k \<le> n \<Longrightarrow> take (Suc k) (trace n f x) = trace k f x"
proof (induction n arbitrary: x k)
  case 0
  then show ?case by simp
next
  case (Suc n)
  show ?case
  proof (cases k)
    case 0
    then show ?thesis by simp
  next
    case (Suc j)
    then have "j \<le> n" using Suc.prems by simp
    then show ?thesis using Suc.IH [of j "f x"] Suc by simp
  qed
qed

lemma iter_add: "iter (a + b) f x = iter b f (iter a f x)"
  by (induction a arbitrary: x) simp_all

lemma iter_fixed: "f x = x \<Longrightarrow> iter n f x = x"
  by (induction n) simp_all

lemma strain_update:
  "strain_accumulation (update_pain_level g m True ps) = strain_step g (strain_accumulation ps)"
  by (simp add: update_pain_level_def calculate_pain_from_grip_def strain_step_def Let_def)

lemma strain_iter:
  "strain_accumulation (iter n grip_metal_90 ps) = iter n (strain_step 90) (strain_accumulation ps)"
  by (induction n arbitrary: ps) (simp_all add: grip_metal_90_def strain_update)

lemma strain_steps:
  "strain_step 90 (Dbl 0 0) = Dbl 8106479329266893 (- 54)"
  "strain_step 90 (Dbl 8106479329266893 (- 54)) = Dbl 8106479329266893 (- 53)"
  "strain_step 90 (Dbl 8106479329266893 (- 53)) = Dbl 3039929748475085 (- 51)"
  "strain_step 90 (Dbl 3039929748475085 (- 51)) = Dbl 8106479329266893 (- 52)"
  "strain_step 90 (Dbl 8106479329266893 (- 52)) = Dbl 9 (- 2)"
  "strain_step 90 (Dbl 9 (- 2)) = Dbl 3039929748475085 (- 50)"
  "strain_step 90 (Dbl 3039929748475085 (- 50)) = Dbl 1773292353277133 (- 49)"
  "strain_step 90 (Dbl 1773292353277133 (- 49)) = Dbl 4053239664633447 (- 50)"
  "strain_step 90 (Dbl 4053239664633447 (- 50)) = Dbl 1139973655678157 (- 48)"
  "strain_step 90 (Dbl 1139973655678157 (- 48)) = Dbl 5066549580791809 (- 50)"
  "strain_step 90 (Dbl 5066549580791809 (- 50)) = Dbl 2786602269435495 (- 49)"
  "strain_step 90 (Dbl 2786602269435495 (- 49)) = Dbl 6079859496950171 (- 50)"
  "strain_step 90 (Dbl 6079859496950171 (- 50)) = Dbl 823314306878669 (- 47)"
  "strain_step 90 (Dbl 823314306878669 (- 47)) = Dbl 7093169413108533 (- 50)"
  "strain_step 90 (Dbl 7093169413108533 (- 50)) = Dbl 3799912185593857 (- 49)"
  "strain_step 90 (Dbl 3799912185593857 (- 49)) = Dbl 8106479329266895 (- 50)"
  "strain_step 90 (Dbl 8106479329266895 (- 50)) = Dbl 2153283571836519 (- 48)"
  "strain_step 90 (Dbl 2153283571836519 (- 48)) = Dbl 1139973655678157 (- 47)"
  "strain_step 90 (Dbl 1139973655678157 (- 47)) = Dbl 2406611050876109 (- 48)"
  "strain_step 90 (Dbl 2406611050876109 (- 48)) = Dbl 9 0"
  "strain_step 90 (Dbl 9 0) = Dbl 2659938529915699 (- 48)"
  "strain_step 90 (Dbl 2659938529915699 (- 48)) = Dbl 1393301134717747 (- 47)"
  "strain_step 90 (Dbl 1393301134717747 (- 47)) = Dbl 2913266008955289 (- 48)"
  "strain_step 90 (Dbl 2913266008955289 (- 48)) = Dbl 759982437118771 (- 46)"
  "strain_step 90 (Dbl 759982437118771 (- 46)) = Dbl 3166593487994879 (- 48)"
  "strain_step 90 (Dbl 3166593487994879 (- 48)) = Dbl 1646628613757337 (- 47)"
  "strain_step 90 (Dbl 1646628613757337 (- 47)) = Dbl 3419920967034469 (- 48)"
  "strain_step 90 (Dbl 3419920967034469 (- 48)) = Dbl 443323088319283 (- 45)"
  "strain_step 90 (Dbl 443323088319283 (- 45)) = Dbl 3673248446074059 (- 48)"
  "strain_step 90 (Dbl 3673248446074059 (- 48)) = Dbl 1899956092796927 (- 47)"
  "strain_step 90 (Dbl 1899956092796927 (- 47)) = Dbl 3926575925113649 (- 48)"
  "strain_step 90 (Dbl 3926575925113649 (- 48)) = Dbl 1013309916158361 (- 46)"
  "strain_step 90 (Dbl 1013309916158361 (- 46)) = Dbl 4179903404153239 (- 48)"
  "strain_step 90 (Dbl 4179903404153239 (- 48)) = Dbl 2153283571836517 (- 47)"
  "strain_step 90 (Dbl 2153283571836517 (- 47)) = Dbl 4433230883192829 (- 48)"
  "strain_step 90 (Dbl 4433230883192829 (- 48)) = Dbl 284993413919539 (- 44)"
  "strain_step 90 (Dbl 284993413919539 (- 44)) = Dbl 4686558362232419 (- 48)"
  "strain_step 90 (Dbl 4686558362232419 (- 48)) = Dbl 2406611050876107 (- 47)"
  "strain_step 90 (Dbl 2406611050876107 (- 47)) = Dbl 4939885841272009 (- 48)"
  "strain_step 90 (Dbl 4939885841272009 (- 48)) = Dbl 1266637395197951 (- 46)"
  "strain_step 90 (Dbl 1266637395197951 (- 46)) = Dbl 5193213320311599 (- 48)"
  "strain_step 90 (Dbl 5193213320311599 (- 48)) = Dbl 2659938529915697 (- 47)"
  "strain_step 90 (Dbl 2659938529915697 (- 47)) = Dbl 5446540799351189 (- 48)"
  "strain_step 90 (Dbl 5446540799351189 (- 48)) = Dbl 696650567358873 (- 45)"
  "strain_step 90 (Dbl 696650567358873 (- 45)) = Dbl 5699868278390779 (- 48)"
  "strain_step 90 (Dbl 5699868278390779 (- 48)) = Dbl 2913266008955287 (- 47)"
  "strain_step 90 (Dbl 2913266008955287 (- 47)) = Dbl 5953195757430369 (- 48)"
  "strain_step 90 (Dbl 5953195757430369 (- 48)) = Dbl 1519964874237541 (- 46)"
  "strain_step 90 (Dbl 1519964874237541 (- 46)) = Dbl 6206523236469959 (- 48)"
  "strain_step 90 (Dbl 6206523236469959 (- 48)) = Dbl 3166593487994877 (- 47)"
  "strain_step 90 (Dbl 3166593487994877 (- 47)) = Dbl 6459850715509549 (- 48)"
  "strain_step 90 (Dbl 6459850715509549 (- 48)) = Dbl 205828576719667 (- 43)"
  "strain_step 90 (Dbl 205828576719667 (- 43)) = Dbl 6713178194549139 (- 48)"
  "strain_step 90 (Dbl 6713178194549139 (- 48)) = Dbl 3419920967034467 (- 47)"
  "strain_step 90 (Dbl 3419920967034467 (- 47)) = Dbl 6966505673588729 (- 48)"
  "strain_step 90 (Dbl 6966505673588729 (- 48)) = Dbl 1773292353277131 (- 46)"
  "strain_step 90 (Dbl 1773292353277131 (- 46)) = Dbl 7219833152628319 (- 48)"
  "strain_step 90 (Dbl 7219833152628319 (- 48)) = Dbl 3673248446074057 (- 47)"
  "strain_step 90 (Dbl 3673248446074057 (- 47)) = Dbl 7473160631667909 (- 48)"
  "strain_step 90 (Dbl 7473160631667909 (- 48)) = Dbl 949978046398463 (- 45)"
  "strain_step 90 (Dbl 949978046398463 (- 45)) = Dbl 7726488110707499 (- 48)"
  "strain_step 90 (Dbl 7726488110707499 (- 48)) = Dbl 3926575925113647 (- 47)"
  "strain_step 90 (Dbl 3926575925113647 (- 47)) = Dbl 7979815589747089 (- 48)"
  "strain_step 90 (Dbl 7979815589747089 (- 48)) = Dbl 2026619832316721 (- 46)"
  "strain_step 90 (Dbl 2026619832316721 (- 46)) = Dbl 8233143068786679 (- 48)"
  "strain_step 90 (Dbl 8233143068786679 (- 48)) = Dbl 4179903404153237 (- 47)"
  "strain_step 90 (Dbl 4179903404153237 (- 47)) = Dbl 8486470547826269 (- 48)"
  "strain_step 90 (Dbl 8486470547826269 (- 48)) = Dbl 538320892959129 (- 44)"
  "strain_step 90 (Dbl 538320892959129 (- 44)) = Dbl 8739798026865859 (- 48)"
  "strain_step 90 (Dbl 8739798026865859 (- 48)) = Dbl 4433230883192827 (- 47)"
  "strain_step 90 (Dbl 4433230883192827 (- 47)) = Dbl 8993125505905449 (- 48)"
  "strain_step 90 (Dbl 8993125505905449 (- 48)) = Dbl 2279947311356311 (- 46)"
  "strain_step 90 (Dbl 2279947311356311 (- 46)) = Dbl 577903311559065 (- 44)"
  "strain_step 90 (Dbl 577903311559065 (- 44)) = Dbl 2343279181116209 (- 46)"
  "strain_step 90 (Dbl 2343279181116209 (- 46)) = Dbl 1187472557998079 (- 45)"
  "strain_step 90 (Dbl 1187472557998079 (- 45)) = Dbl 2406611050876107 (- 46)"
  "strain_step 90 (Dbl 2406611050876107 (- 46)) = Dbl 304784623219507 (- 43)"
  "strain_step 90 (Dbl 304784623219507 (- 43)) = Dbl 2469942920636005 (- 46)"
  "strain_step 90 (Dbl 2469942920636005 (- 46)) = Dbl 1250804427757977 (- 45)"
  "strain_step 90 (Dbl 1250804427757977 (- 45)) = Dbl 2533274790395903 (- 46)"
  "strain_step 90 (Dbl 2533274790395903 (- 46)) = Dbl 641235181318963 (- 44)"
  "strain_step 90 (Dbl 641235181318963 (- 44)) = Dbl 2596606660155801 (- 46)"
  "strain_step 90 (Dbl 2596606660155801 (- 46)) = Dbl 1314136297517875 (- 45)"
  "strain_step 90 (Dbl 1314136297517875 (- 45)) = Dbl 2659938529915699 (- 46)"
  "strain_step 90 (Dbl 2659938529915699 (- 46)) = Dbl 153 (- 2)"
  "strain_step 90 (Dbl 153 (- 2)) = Dbl 2723270399675597 (- 46)"
  "strain_step 90 (Dbl 2723270399675597 (- 46)) = Dbl 1377468167277773 (- 45)"
  "strain_step 90 (Dbl 1377468167277773 (- 45)) = Dbl 2786602269435495 (- 46)"
  "strain_step 90 (Dbl 2786602269435495 (- 46)) = Dbl 704567051078861 (- 44)"
  "strain_step 90 (Dbl 704567051078861 (- 44)) = Dbl 2849934139195393 (- 46)"
  "strain_step 90 (Dbl 2849934139195393 (- 46)) = Dbl 1440800037037671 (- 45)"
  "strain_step 90 (Dbl 1440800037037671 (- 45)) = Dbl 2913266008955291 (- 46)"
  "strain_step 90 (Dbl 2913266008955291 (- 46)) = Dbl 368116492979405 (- 43)"
  "strain_step 90 (Dbl 368116492979405 (- 43)) = Dbl 2976597878715189 (- 46)"
  "strain_step 90 (Dbl 2976597878715189 (- 46)) = Dbl 1504131906797569 (- 45)"
  "strain_step 90 (Dbl 1504131906797569 (- 45)) = Dbl 3039929748475087 (- 46)"
  "strain_step 90 (Dbl 3039929748475087 (- 46)) = Dbl 767898920838759 (- 44)"
  "strain_step 90 (Dbl 767898920838759 (- 44)) = Dbl 3103261618234985 (- 46)"
  "strain_step 90 (Dbl 3103261618234985 (- 46)) = Dbl 1567463776557467 (- 45)"
  "strain_step 90 (Dbl 1567463776557467 (- 45)) = Dbl 3166593487994883 (- 46)"
  "strain_step 90 (Dbl 3166593487994883 (- 46)) = Dbl 199891213929677 (- 42)"
  "strain_step 90 (Dbl 199891213929677 (- 42)) = Dbl 3229925357754781 (- 46)"
  "strain_step 90 (Dbl 3229925357754781 (- 46)) = Dbl 1630795646317365 (- 45)"
  "strain_step 90 (Dbl 1630795646317365 (- 45)) = Dbl 3293257227514679 (- 46)"
  "strain_step 90 (Dbl 3293257227514679 (- 46)) = Dbl 831230790598657 (- 44)"
  "strain_step 90 (Dbl 831230790598657 (- 44)) = Dbl 3356589097274577 (- 46)"
  "strain_step 90 (Dbl 3356589097274577 (- 46)) = Dbl 1694127516077263 (- 45)"
  "strain_step 90 (Dbl 1694127516077263 (- 45)) = Dbl 3419920967034475 (- 46)"
  "strain_step 90 (Dbl 3419920967034475 (- 46)) = Dbl 431448362739303 (- 43)"
  "strain_step 90 (Dbl 431448362739303 (- 43)) = Dbl 3483252836794373 (- 46)"
  "strain_step 90 (Dbl 3483252836794373 (- 46)) = Dbl 1757459385837161 (- 45)"
  "strain_step 90 (Dbl 1757459385837161 (- 45)) = Dbl 25 1"
  "strain_step 90 (Dbl 25 1) = Dbl 25 1"
  by (simp_all add: strain_step_def scenario_lits float_ev lits cong: let_weak_cong)

lemma strain_trace_112:
  "trace 112 (strain_step 90) (Dbl 0 0) =
     [Dbl 0 0,
      Dbl 8106479329266893 (- 54),
      Dbl 8106479329266893 (- 53),
      Dbl 3039929748475085 (- 51),
      Dbl 8106479329266893 (- 52),
      Dbl 9 (- 2),
      Dbl 3039929748475085 (- 50),
      Dbl 1773292353277133 (- 49),
      Dbl 4053239664633447 (- 50),
      Dbl 1139973655678157 (- 48),
      Dbl 5066549580791809 (- 50),
      Dbl 2786602269435495 (- 49),
      Dbl 6079859496950171 (- 50),
      Dbl 823314306878669 (- 47),
      Dbl 7093169413108533 (- 50),
      Dbl 3799912185593857 (- 49),
      Dbl 8106479329266895 (- 50),
      Dbl 2153283571836519 (- 48),
      Dbl 1139973655678157 (- 47),
      Dbl 2406611050876109 (- 48),
      Dbl 9 0,
      Dbl 2659938529915699 (- 48),
      Dbl 1393301134717747 (- 47),
      Dbl 2913266008955289 (- 48),
      Dbl 759982437118771 (- 46),
      Dbl 3166593487994879 (- 48),
      Dbl 1646628613757337 (- 47),
      Dbl 3419920967034469 (- 48),
      Dbl 443323088319283 (- 45),
      Dbl 3673248446074059 (- 48),
      Dbl 1899956092796927 (- 47),
      Dbl 3926575925113649 (- 48),
      Dbl 1013309916158361 (- 46),
      Dbl 4179903404153239 (- 48),
      Dbl 2153283571836517 (- 47),
      Dbl 4433230883192829 (- 48),
      Dbl 284993413919539 (- 44),
      Dbl 4686558362232419 (- 48),
      Dbl 2406611050876107 (- 47),
      Dbl 4939885841272009 (- 48),
      Dbl 1266637395197951 (- 46),
      Dbl 5193213320311599 (- 48),
      Dbl 2659938529915697 (- 47),
      Dbl 5446540799351189 (- 48),
      Dbl 696650567358873 (- 45),
      Dbl 5699868278390779 (- 48),
      Dbl 2913266008955287 (- 47),
      Dbl 5953195757430369 (- 48),
      Dbl 1519964874237541 (- 46),
      Dbl 6206523236469959 (- 48),
      Dbl 3166593487994877 (- 47),
      Dbl 6459850715509549 (- 48),
      Dbl 205828576719667 (- 43),
      Dbl 6713178194549139 (- 48),
      Dbl 3419920967034467 (- 47),
      Dbl 6966505673588729 (- 48),
      Dbl 1773292353277131 (- 46),
      Dbl 7219833152628319 (- 48),
      Dbl 3673248446074057 (- 47),
      Dbl 7473160631667909 (- 48),
      Dbl 949978046398463 (- 45),
      Dbl 7726488110707499 (- 48),
      Dbl 3926575925113647 (- 47),
      Dbl 7979815589747089 (- 48),
      Dbl 2026619832316721 (- 46),
      Dbl 8233143068786679 (- 48),
      Dbl 4179903404153237 (- 47),
      Dbl 8486470547826269 (- 48),
      Dbl 538320892959129 (- 44),
      Dbl 8739798026865859 (- 48),
      Dbl 4433230883192827 (- 47),
      Dbl 8993125505905449 (- 48),
      Dbl 2279947311356311 (- 46),
      Dbl 577903311559065 (- 44),
      Dbl 2343279181116209 (- 46),
      Dbl 1187472557998079 (- 45),
      Dbl 2406611050876107 (- 46),
      Dbl 304784623219507 (- 43),
      Dbl 2469942920636005 (- 46),
      Dbl 1250804427757977 (- 45),
      Dbl 2533274790395903 (- 46),
      Dbl 641235181318963 (- 44),
      Dbl 2596606660155801 (- 46),
      Dbl 1314136297517875 (- 45),
      Dbl 2659938529915699 (- 46),
      Dbl 153 (- 2),
      Dbl 2723270399675597 (- 46),
      Dbl 1377468167277773 (- 45),
      Dbl 2786602269435495 (- 46),
      Dbl 704567051078861 (- 44),
      Dbl 2849934139195393 (- 46),
      Dbl 1440800037037671 (- 45),
      Dbl 2913266008955291 (- 46),
      Dbl 368116492979405 (- 43),
      Dbl 2976597878715189 (- 46),
      Dbl 1504131906797569 (- 45),
      Dbl 3039929748475087 (- 46),
      Dbl 767898920838759 (- 44),
      Dbl 3103261618234985 (- 46),
      Dbl 1567463776557467 (- 45),
      Dbl 3166593487994883 (- 46),
      Dbl 199891213929677 (- 42),
      Dbl 3229925357754781 (- 46),
      Dbl 1630795646317365 (- 45),
      Dbl 3293257227514679 (- 46),
      Dbl 831230790598657 (- 44),
      Dbl 3356589097274577 (- 46),
      Dbl 1694127516077263 (- 45),
      Dbl 3419920967034475 (- 46),
      Dbl 431448362739303 (- 43),
      Dbl 3483252836794373 (- 46),
      Dbl 1757459385837161 (- 45),
      Dbl 25 1]"
  by (simp add: trace_numeral strain_steps)

lemma strain_below_cap:
  assumes "n < 112"
  shows "dless (iter n (strain_step 90) (Dbl 0 0)) (d_int 50)"
proof -
  have all: "list_all (\<lambda>x. dless x (d_int 50)) (butlast (trace 112 (strain_step 90) (Dbl 0 0)))"
    unfolding strain_trace_112 by (simp add: lits)
  have len: "length (butlast (trace 112 (strain_step 90) (Dbl 0 0))) = 112"
    by (simp add: length_trace)
  have "dless (butlast (trace 112 (strain_step 90) (Dbl 0 0)) ! n) (d_int 50)"
    using all assms len by (simp add: list_all_length)
  moreover have "butlast (trace 112 (strain_step 90) (Dbl 0 0)) ! n
                 = trace 112 (strain_step 90) (Dbl 0 0) ! n"
    using assms len by (simp add: nth_butlast)
  ultimately show ?thesis using assms by (simp add: trace_nth)
qed

lemma strain_at_cap:
  assumes "112 \<le> n"
  shows "iter n (strain_step 90) (Dbl 0 0) = d_int 50"
proof -
  have "iter 112 (strain_step 90) (Dbl 0 0) = trace 112 (strain_step 90) (Dbl 0 0) ! 112"
    by (simp add: trace_nth)
  then have c: "iter 112 (strain_step 90) (Dbl 0 0) = Dbl 25 1"
    unfolding strain_trace_112 by simp
  obtain k where n: "n = 112 + k" using assms by (metis le_Suc_ex)
  have "iter n (strain_step 90) (Dbl 0 0) = iter k (strain_step 90) (Dbl 25 1)"
    unfolding n iter_add c ..
  also have "\<dots> = Dbl 25 1" by (rule iter_fixed) (rule strain_steps)
  finally show ?thesis by (simp add: lits)
qed

lemma pain_at:
  assumes "n \<le> 63"
  shows "(pain_level (iter n grip_metal_90 pain_init), relief_mode (iter n grip_metal_90 pain_init))
         = map (\<lambda>s. (pain_level s, relief_mode s)) (trace 63 grip_metal_90 pain_init) ! n"
  using assms by (simp add: length_trace trace_nth)

lemma pain_before_63:
  assumes "n \<le> 62"
  shows "pain_level (iter n grip_metal_90 pain_init) \<le> 75
         \<and> \<not> relief_mode (iter n grip_metal_90 pain_init)"
proof -
  let ?xs = "map (\<lambda>s. (pain_level s, relief_mode s)) (trace 63 grip_metal_90 pain_init)"
  have all: "list_all (\<lambda>p. fst p \<le> 75 \<and> \<not> snd p) (butlast ?xs)"
    unfolding pain_trace_63 by simp
  have len: "length (butlast ?xs) = 63" by (simp add: length_trace)
  have "(\<lambda>p. fst p \<le> 75 \<and> \<not> snd p) (butlast ?xs ! n)"
    using all assms len by (simp add: list_all_length)
  moreover have "butlast ?xs ! n = ?xs ! n" using assms len by (simp add: nth_butlast)
  ultimately have p: "fst (?xs ! n) \<le> 75 \<and> \<not> snd (?xs ! n)" by simp
  have eq: "?xs ! n = (pain_level (iter n grip_metal_90 pain_init),
                       relief_mode (iter n grip_metal_90 pain_init))"
    using pain_at [of n] assms by simp
  show ?thesis using p unfolding eq by simp
qed

lemma pain_at_63:
  "pain_level (iter 63 grip_metal_90 pain_init) = 76 \<and> relief_mode (iter 63 grip_metal_90 pain_init)"
proof -
  have "(pain_level (iter 63 grip_metal_90 pain_init), relief_mode (iter 63 grip_metal_90 pain_init))
        = (76, True)"
    using pain_at [of 63] unfolding pain_trace_63 by simp
  then show ?thesis by simp
qed

text \<open>
  C7, as stated, fails: 30 cycles are not enough. After 30 updates with grip 90 on metal
  from the initial pain state the reported level is 61 and relief mode is off, the strain
  is 13.499999999999993, below the cap of 50, and in none of the states passed through
  does the level exceed 75 or is relief mode on.
\<close>

theorem thirty_cycles_counterexample:
  "pain_level (iter 30 grip_metal_90 pain_init) = 61
   \<and> \<not> relief_mode (iter 30 grip_metal_90 pain_init)
   \<and> strain_accumulation (iter 30 grip_metal_90 pain_init) = Dbl 1899956092796927 (- 47)
   \<and> dless (strain_accumulation (iter 30 grip_metal_90 pain_init)) (d_int 50)
   \<and> list_all (\<lambda>s. pain_level s \<le> 75 \<and> \<not> relief_mode s) (trace 30 grip_metal_90 pain_init)"
proof -
  have s0: "strain_accumulation pain_init = Dbl 0 0" by (simp add: pain_init_def lits)
  have "(pain_level (iter 30 grip_metal_90 pain_init), relief_mode (iter 30 grip_metal_90 pain_init))
        = (61, False)"
    using pain_at [of 30] unfolding pain_trace_63 by simp
  then have a: "pain_level (iter 30 grip_metal_90 pain_init) = 61
                \<and> \<not> relief_mode (iter 30 grip_metal_90 pain_init)" by simp
  have "iter 30 (strain_step 90) (Dbl 0 0) = trace 112 (strain_step 90) (Dbl 0 0) ! 30"
    by (simp add: trace_nth)
  then have "iter 30 (strain_step 90) (Dbl 0 0) = Dbl 1899956092796927 (- 47)"
    unfolding strain_trace_112 by simp
  then have b: "strain_accumulation (iter 30 grip_metal_90 pain_init) = Dbl 1899956092796927 (- 47)"
    by (simp add: strain_iter s0)
  have c: "dless (strain_accumulation (iter 30 grip_metal_90 pain_init)) (d_int 50)"
    using strain_below_cap [of 30] by (simp add: strain_iter s0)
  have "\<forall>k < length (trace 30 grip_metal_90 pain_init).
          pain_level (trace 30 grip_metal_90 pain_init ! k) \<le> 75
          \<and> \<not> relief_mode (trace 30 grip_metal_90 pain_init ! k)"
  proof (intro allI impI)
    fix k assume "k < length (trace 30 grip_metal_90 pain_init)"
    then have k: "k \<le> 30" by (simp add: length_trace)
    then have "trace 30 grip_metal_90 pain_init ! k = iter k grip_metal_90 pain_init"
      by (rule trace_nth)
    then show "pain_level (trace 30 grip_metal_90 pain_init ! k) \<le> 75
          \<and> \<not> relief_mode (trace 30 grip_metal_90 pain_init ! k)"
      using pain_before_63 [of k] k by simp
  qed
  then have d: "list_all (\<lambda>s. pain_level s \<le> 75 \<and> \<not> relief_mode s)
                  (trace 30 grip_metal_90 pain_init)"
    by (simp add: list_all_length)
  show ?thesis using a b c d by simp
qed

text \<open>
  C7, amended. With grip 90 on metal in every cycle from the initial pain state, the
  reported level stays at or below 75 and relief mode stays off for the first 62 cycles;
  after the 63rd the level is 76 and relief mode is on. Each gripping update sets the
  strain to min (strain + (grip / 100) * 0.5, 50); the strain stays below 50 for the
  first 111 cycles, is exactly 50 after the 112th and stays 50 from then on.
\<close>

theorem strain_scenario:
  "(\<forall>n \<le> 62. pain_level (iter n grip_metal_90 pain_init) \<le> 75
               \<and> \<not> relief_mode (iter n grip_metal_90 pain_init))
   \<and> pain_level (iter 63 grip_metal_90 pain_init) = 76
   \<and> relief_mode (iter 63 grip_metal_90 pain_init)
   \<and> strain_accumulation (update_pain_level g m True ps)
       = py_min (dadd (strain_accumulation ps) (dmul (ratio g 100) (ratio 5 10))) (d_int 50)
   \<and> (\<forall>n < 112. dless (strain_accumulation (iter n grip_metal_90 pain_init)) (d_int 50))
   \<and> (\<forall>n \<ge> 112. strain_accumulation (iter n grip_metal_90 pain_init) = d_int 50)"
proof -
  have s0: "strain_accumulation pain_init = Dbl 0 0" by (simp add: pain_init_def lits)
  have a: "\<forall>n \<le> 62. pain_level (iter n grip_metal_90 pain_init) \<le> 75
               \<and> \<not> relief_mode (iter n grip_metal_90 pain_init)"
    using pain_before_63 by blast
  have b: "\<forall>n < 112. dless (strain_accumulation (iter n grip_metal_90 pain_init)) (d_int 50)"
    using strain_below_cap by (simp add: strain_iter s0)
  have c: "\<forall>n \<ge> 112. strain_accumulation (iter n grip_metal_90 pain_init) = d_int 50"
    using strain_at_cap by (simp add: strain_iter s0)
  have d: "strain_accumulation (update_pain_level g m True ps)
       = py_min (dadd (strain_accumulation ps) (dmul (ratio g 100) (ratio 5 10))) (d_int 50)"
    by (simp add: strain_update strain_step_def)
  show ?thesis using a b c d pain_at_63 by blast
qed

theorem strain_scenario_witness:
  "pain_level (iter 62 grip_metal_90 pain_init) \<le> 75
   \<and> \<not> relief_mode (iter 62 grip_metal_90 pain_init)
   \<and> dless (strain_accumulation (iter 111 grip_metal_90 pain_init)) (d_int 50)
   \<and> strain_accumulation (iter 112 grip_metal_90 pain_init) = d_int 50
   \<and> strain_accumulation (iter 200 grip_metal_90 pain_init) = d_int 50"
proof -
  have a: "(62::nat) \<le> 62" and b: "(111::nat) < 112" and c: "(112::nat) \<le> 112"
    and d: "(112::nat) \<le> 200" by simp_all
  show ?thesis using strain_scenario a b c d by blast
qed

end
